theory Spec2Isabelle
  imports Main "HOL-Library.Multiset" "HOL-Library.Char_ord" "HOL-Library.List_Lexorder"
begin

section \<open>Python values, strings and errors\<close>

text \<open>
  The exceptions that the modelled part of \<^verbatim>\<open>treeoperations.py\<close> can raise. A function of
  the model that can raise returns \<open>pyerror + 'a\<close>, with \<open>Inl\<close> for the exception.
\<close>

datatype pyerror =
    AttributeError
  | RuntimeError string
  | ValueError string
  | TypeError
  | KeyError
  | IndexError
  | AssertionError
  | ResolverRequired

text \<open>
  Python floats are kept to the values whose text is certain: an integer-valued finite
  float of magnitude below \<open>10^16\<close> (printed as its digits followed by \<^verbatim>\<open>.0\<close>) and the two
  infinities, which \<^verbatim>\<open>Const.get_cppStr\<close> tests for. NaN and fractional floats are outside the model.
\<close>

datatype pyfloat = Finite int | PosInf | NegInf

datatype pyvalue = PyStr string | PyInt int | PyFloat pyfloat | PyBool bool

definition digit :: "nat \<Rightarrow> char" where
  "digit n = ''0123456789'' ! n"

function str_nat :: "nat \<Rightarrow> string" where
  "str_nat n = (if n < 10 then [digit n] else str_nat (n div 10) @ [digit (n mod 10)])"
  by pat_completeness auto
termination
  by (relation "measure (\<lambda>n. n)") auto

declare str_nat.simps [simp del]

text \<open>\<^verbatim>\<open>"{0:d}".format(i)\<close> and \<^verbatim>\<open>str(i)\<close> of an int.\<close>

definition str_int :: "int \<Rightarrow> string" where
  "str_int i = (if i < 0 then CHR ''-'' # str_nat (nat (- i)) else str_nat (nat i))"

definition str_float :: "pyfloat \<Rightarrow> string" where
  "str_float f = (case f of Finite n \<Rightarrow> str_int n @ ''.0'' | PosInf \<Rightarrow> ''inf'' | NegInf \<Rightarrow> ''-inf'')"

text \<open>\<^verbatim>\<open>str(value)\<close>.\<close>

fun py_str :: "pyvalue \<Rightarrow> string" where
  "py_str (PyStr s) = s"
| "py_str (PyInt i) = str_int i"
| "py_str (PyFloat f) = str_float f"
| "py_str (PyBool b) = (if b then ''True'' else ''False'')"

text \<open>\<^verbatim>\<open>sep.join(xs)\<close>.\<close>

fun join :: "string \<Rightarrow> string list \<Rightarrow> string" where
  "join sep [] = []"
| "join sep [x] = x"
| "join sep (x # y # ys) = x @ sep @ join sep (y # ys)"

text \<open>The first exception of a sequence of evaluations, or all their values.\<close>

fun seq_results :: "(pyerror + 'a) list \<Rightarrow> pyerror + 'a list" where
  "seq_results [] = Inr []"
| "seq_results (r # rs) =
     (case r of Inl e \<Rightarrow> Inl e
      | Inr v \<Rightarrow> (case seq_results rs of Inl e \<Rightarrow> Inl e | Inr vs \<Rightarrow> Inr (v # vs)))"

section \<open>Operation nodes\<close>

text \<open>
  Every object carries its identity (\<^verbatim>\<open>id(self)\<close>) and the \<^verbatim>\<open>TupleOpCache\<close> that
  \<^verbatim>\<open>TupleOp.__init__\<close> creates: the cached hash and the cached repr, both \<open>None\<close> at first.
\<close>

record obj =
  oid :: nat
  c_hash :: "int option"
  c_repr :: "string option"

text \<open>\<^verbatim>\<open>TupleOpCache.__bool__\<close>.\<close>

definition cache_bool :: "obj \<Rightarrow> bool" where
  "cache_bool c = (c_hash c \<noteq> None \<or> c_repr c \<noteq> None)"

text \<open>A newly constructed object: \<^verbatim>\<open>TupleOpCache.__init__\<close>.\<close>

definition new_obj :: "nat \<Rightarrow> obj" where
  "new_obj n = \<lparr>oid = n, c_hash = None, c_repr = None\<rparr>"

text \<open>
  One constructor per class of \<^verbatim>\<open>treeoperations.py\<close>, its fields in the order of the class's
  \<^verbatim>\<open>__init__\<close>. \<^verbatim>\<open>Reduce.__init__\<close> does not call \<^verbatim>\<open>TupleOp.__init__\<close>, so a \<open>Reduce\<close> object has
  an identity and no cache. A node is a tree: an object that occurs twice occurs with the same
  identity. The back-reference \<^verbatim>\<open>_parent\<close> of a placeholder, cyclic in Python, is held as the
  parent node in which the placeholders' own back-references are left unset; \<^verbatim>\<open>repr\<close>, the only
  reader of \<^verbatim>\<open>_parent\<close>, does not follow them.

  Modelled from the spec: the range proxy class (module treeproxies) is not among the sources.
  A range proxy is the source range node of a higher-order operation; it is held as the node
  behind it (\<^verbatim>\<open>rng.op\<close>), the name of its underlying collection (\<^verbatim>\<open>rng._base\<close>) and the node
  of its index list (\<^verbatim>\<open>rng._idxs.op\<close>).
\<close>

datatype tupleop =
    Const obj string pyvalue
  | GetColumn obj string string
  | GetArrayColumn obj string string tupleop
  | MathOp obj string "tupleop list" string
  | GetItem obj tupleop string tupleop
  | Construct obj string "tupleop list"
  | CallMethod obj string "tupleop list" string
  | CallMemberMethod obj tupleop string "tupleop list" string
  | GetDataMember obj tupleop string
  | ExtVar obj string string
  | DefinedVar obj string string "string option"
  | InitList obj string "tupleop list"
  | LocalVariablePlaceholder obj string "tupleop option" "int option"
  | Select obj rngproxy tupleop tupleop
  | Sort obj rngproxy tupleop tupleop
  | Map obj rngproxy tupleop tupleop string
  | Next obj rngproxy tupleop tupleop
  | Reduce nat rngproxy string tupleop tupleop tupleop tupleop
  | Combine obj "rngproxy list" tupleop "tupleop list"
  | ForwardingOp obj tupleop
  | ScaleFactorWithSystOp obj tupleop string "string list"
  | SystModifiedCollectionOp obj tupleop string "string list"
and rngproxy =
    RangeProxy (rng_op: tupleop) (rng_base: string) (rng_idxs: tupleop)

definition SizeType :: string where
  "SizeType = ''std::size_t''"

section \<open>Rendering\<close>

text \<open>\<^verbatim>\<open>LocalVariablePlaceholder.name\<close>.\<close>

definition name :: "int option \<Rightarrow> pyerror + string" where
  "name i = (case i of
       None \<Rightarrow> Inl (RuntimeError ''Using LocalVariablePlaceholder before giving it an index'')
     | Some n \<Rightarrow> Inr (''i'' @ str_int n))"

text \<open>\<^verbatim>\<open>Const.get_cppStr\<close>: only a float has an absolute value equal to infinity.\<close>

definition Const_get_cppStr :: "string \<Rightarrow> pyvalue \<Rightarrow> string" where
  "Const_get_cppStr typeName v =
     (if v = PyFloat PosInf then ''std::numeric_limits<'' @ typeName @ ''>::max()''
      else if v = PyFloat NegInf then ''std::numeric_limits<'' @ typeName @ ''>::min()''
      else py_str v)"

text \<open>
  The table \<^verbatim>\<open>mathOpFuns_cppStr\<close>, applied to the results of rendering the arguments in
  order. A key that is not in the table is a \<open>KeyError\<close>; an entry with a fixed number of
  parameters called with another number of arguments is a \<open>TypeError\<close>, raised before any
  argument is rendered.
\<close>

definition wrap_join :: "string \<Rightarrow> (pyerror + string) list \<Rightarrow> pyerror + string" where
  "wrap_join sep rs =
     (case seq_results rs of Inl e \<Rightarrow> Inl e | Inr ss \<Rightarrow> Inr (''( '' @ join sep ss @ '' )''))"

definition binary :: "string \<Rightarrow> string \<Rightarrow> string \<Rightarrow> (pyerror + string) list \<Rightarrow> pyerror + string" where
  "binary pre mid post rs =
     (if length rs \<noteq> 2 then Inl TypeError
      else case seq_results rs of Inl e \<Rightarrow> Inl e
           | Inr ss \<Rightarrow> Inr (pre @ ss ! 0 @ mid @ ss ! 1 @ post))"

definition unary :: "string \<Rightarrow> string \<Rightarrow> (pyerror + string) list \<Rightarrow> pyerror + string" where
  "unary pre post rs =
     (if length rs \<noteq> 1 then Inl TypeError
      else case seq_results rs of Inl e \<Rightarrow> Inl e | Inr ss \<Rightarrow> Inr (pre @ ss ! 0 @ post))"

definition ternary :: "(pyerror + string) list \<Rightarrow> pyerror + string" where
  "ternary rs =
     (if length rs \<noteq> 3 then Inl TypeError
      else case seq_results rs of Inl e \<Rightarrow> Inl e
           | Inr ss \<Rightarrow> Inr (''( '' @ ss ! 0 @ '' ) ? ( '' @ ss ! 1 @ '' ) : ( '' @ ss ! 2 @ '' )''))"

definition mathOpFuns_cppStr :: "string \<Rightarrow> (pyerror + string) list \<Rightarrow> pyerror + string" where
  "mathOpFuns_cppStr op rs =
     (if op = ''add'' then wrap_join '' + '' rs
      else if op = ''multiply'' then wrap_join '' * '' rs
      else if op = ''subtract'' then binary ''( '' '' - '' '' )'' rs
      else if op = ''divide'' then binary ''( '' '' / '' '' )'' rs
      else if op = ''floatdiv'' then binary ''( 1.*'' '' / '' '' )'' rs
      else if op = ''lt'' then binary ''( '' '' <  '' '' )'' rs
      else if op = ''le'' then binary ''( '' '' <= '' '' )'' rs
      else if op = ''eq'' then binary ''( '' '' == '' '' )'' rs
      else if op = ''ne'' then binary ''( '' '' != '' '' )'' rs
      else if op = ''gt'' then binary ''( '' '' >  '' '' )'' rs
      else if op = ''ge'' then binary ''( '' '' >= '' '' )'' rs
      else if op = ''and'' then wrap_join '' && '' rs
      else if op = ''or'' then wrap_join '' || '' rs
      else if op = ''not'' then unary ''( ! '' '' )'' rs
      else if op = ''band'' then wrap_join '' & '' rs
      else if op = ''bor'' then wrap_join '' | '' rs
      else if op = ''bxor'' then wrap_join '' ^ '' rs
      else if op = ''bnot'' then unary ''( ~ '' '' )'' rs
      else if op = ''abs'' then unary ''std::abs( '' '' )'' rs
      else if op = ''sqrt'' then unary ''std::sqrt( '' '' )'' rs
      else if op = ''pow'' then binary ''std::pow( '' '', '' '' )'' rs
      else if op = ''exp'' then unary ''std::exp( '' '' )'' rs
      else if op = ''log'' then unary ''std::log( '' '' )'' rs
      else if op = ''log10'' then unary ''std::log10( '' '' )'' rs
      else if op = ''max'' then binary ''std::max( '' '', '' '' )'' rs
      else if op = ''min'' then binary ''std::min( '' '', '' '' )'' rs
      else if op = ''switch'' then ternary rs
      else Inl KeyError)"

text \<open>
  \<^verbatim>\<open>get_cppStr\<close> under the default resolver \<^verbatim>\<open>cppNoRedir\<close>, which renders every argument
  inline (\<^verbatim>\<open>CppStrRedir.__call__\<close>). The classes whose rendering asks the resolver whether to
  hoist, or for a symbol, need a resolver that \<^verbatim>\<open>CppStrRedir\<close> is not: \<open>ResolverRequired\<close>.
  The fields of \<^verbatim>\<open>MathOp\<close> are ordered as in \<^verbatim>\<open>__slots__\<close>: outType, op, args.
\<close>

fun get_cppStr :: "tupleop \<Rightarrow> pyerror + string" where
  "get_cppStr (Const c typeName v) = Inr (Const_get_cppStr typeName v)"
| "get_cppStr (GetColumn c typeName nm) = Inr nm"
| "get_cppStr (GetArrayColumn c typeName nm len) = Inr nm"
| "get_cppStr (MathOp c op args outType) = mathOpFuns_cppStr op (map get_cppStr args)"
| "get_cppStr (GetItem c arg typeName idx) =
     (case seq_results [get_cppStr arg, get_cppStr idx] of Inl e \<Rightarrow> Inl e
      | Inr ss \<Rightarrow> Inr (ss ! 0 @ ''['' @ ss ! 1 @ '']''))"
| "get_cppStr (Construct c typeName args) =
     (case seq_results (map get_cppStr args) of Inl e \<Rightarrow> Inl e
      | Inr ss \<Rightarrow> Inr (typeName @ ''{'' @ join '', '' ss @ ''}''))"
| "get_cppStr (CallMethod c nm args retType) = Inl ResolverRequired"
| "get_cppStr (CallMemberMethod c this nm args retType) =
     (case get_cppStr this of Inl e \<Rightarrow> Inl e
      | Inr t \<Rightarrow> (case seq_results (map get_cppStr args) of Inl e \<Rightarrow> Inl e
          | Inr ss \<Rightarrow> Inr (t @ ''.'' @ nm @ ''('' @ join '', '' ss @ '')'')))"
| "get_cppStr (GetDataMember c this nm) =
     (case get_cppStr this of Inl e \<Rightarrow> Inl e | Inr t \<Rightarrow> Inr (t @ ''.'' @ nm))"
| "get_cppStr (ExtVar c typeName nm) = Inr nm"
| "get_cppStr (DefinedVar c typeName defn hint) = Inl ResolverRequired"
| "get_cppStr (InitList c typeName elms) =
     (case seq_results (map get_cppStr elms) of Inl e \<Rightarrow> Inl e
      | Inr ss \<Rightarrow> Inr (''{ '' @ join '', '' ss @ '' }''))"
| "get_cppStr (LocalVariablePlaceholder c typeHint parent i) = name i"
| "get_cppStr (Select c rng predExpr idx) = Inl ResolverRequired"
| "get_cppStr (Sort c rng funExpr idx) = Inl ResolverRequired"
| "get_cppStr (Map c rng funExpr idx typeName) = Inl ResolverRequired"
| "get_cppStr (Next c rng predExpr idx) = Inl ResolverRequired"
| "get_cppStr (Reduce n rng resultType start accuExpr idx prevRes) = Inl ResolverRequired"
| "get_cppStr (Combine c ranges candPredExpr idxs) = Inl ResolverRequired"
| "get_cppStr (ForwardingOp c wrapped) = get_cppStr wrapped"
| "get_cppStr (ScaleFactorWithSystOp c wrapped systName variations) = get_cppStr wrapped"
| "get_cppStr (SystModifiedCollectionOp c wrapped systName variations) = get_cppStr wrapped"

section \<open>The cache, repr and hash\<close>

text \<open>\<^verbatim>\<open>self._cache\<close>: a \<open>Reduce\<close> object has no such attribute.\<close>

fun get_cache :: "tupleop \<Rightarrow> obj option" where
  "get_cache (Const c typeName v) = Some c"
| "get_cache (GetColumn c typeName nm) = Some c"
| "get_cache (GetArrayColumn c typeName nm len) = Some c"
| "get_cache (MathOp c op args outType) = Some c"
| "get_cache (GetItem c arg typeName idx) = Some c"
| "get_cache (Construct c typeName args) = Some c"
| "get_cache (CallMethod c nm args retType) = Some c"
| "get_cache (CallMemberMethod c this nm args retType) = Some c"
| "get_cache (GetDataMember c this nm) = Some c"
| "get_cache (ExtVar c typeName nm) = Some c"
| "get_cache (DefinedVar c typeName defn hint) = Some c"
| "get_cache (InitList c typeName elms) = Some c"
| "get_cache (LocalVariablePlaceholder c typeHint parent i) = Some c"
| "get_cache (Select c rng predExpr idx) = Some c"
| "get_cache (Sort c rng funExpr idx) = Some c"
| "get_cache (Map c rng funExpr idx typeName) = Some c"
| "get_cache (Next c rng predExpr idx) = Some c"
| "get_cache (Reduce n rng resultType start accuExpr idx prevRes) = None"
| "get_cache (Combine c ranges candPredExpr idxs) = Some c"
| "get_cache (ForwardingOp c wrapped) = Some c"
| "get_cache (ScaleFactorWithSystOp c wrapped systName variations) = Some c"
| "get_cache (SystModifiedCollectionOp c wrapped systName variations) = Some c"

text \<open>\<^verbatim>\<open>id(self)\<close>.\<close>

definition py_id :: "tupleop \<Rightarrow> nat" where
  "py_id t = (case t of Reduce n rng resultType start accuExpr idx prevRes \<Rightarrow> n
              | _ \<Rightarrow> (case get_cache t of Some c \<Rightarrow> oid c | None \<Rightarrow> 0))"

text \<open>The object with its cache replaced (the \<^verbatim>\<open>setattr\<close> of \<^verbatim>\<open>fromopcache\<close>).\<close>

fun set_cache :: "obj \<Rightarrow> tupleop \<Rightarrow> tupleop" where
  "set_cache d (Const c typeName v) = Const d typeName v"
| "set_cache d (GetColumn c typeName nm) = GetColumn d typeName nm"
| "set_cache d (GetArrayColumn c typeName nm len) = GetArrayColumn d typeName nm len"
| "set_cache d (MathOp c op args outType) = MathOp d op args outType"
| "set_cache d (GetItem c arg typeName idx) = GetItem d arg typeName idx"
| "set_cache d (Construct c typeName args) = Construct d typeName args"
| "set_cache d (CallMethod c nm args retType) = CallMethod d nm args retType"
| "set_cache d (CallMemberMethod c this nm args retType) = CallMemberMethod d this nm args retType"
| "set_cache d (GetDataMember c this nm) = GetDataMember d this nm"
| "set_cache d (ExtVar c typeName nm) = ExtVar d typeName nm"
| "set_cache d (DefinedVar c typeName defn hint) = DefinedVar d typeName defn hint"
| "set_cache d (InitList c typeName elms) = InitList d typeName elms"
| "set_cache d (LocalVariablePlaceholder c typeHint parent i) = LocalVariablePlaceholder d typeHint parent i"
| "set_cache d (Select c rng predExpr idx) = Select d rng predExpr idx"
| "set_cache d (Sort c rng funExpr idx) = Sort d rng funExpr idx"
| "set_cache d (Map c rng funExpr idx typeName) = Map d rng funExpr idx typeName"
| "set_cache d (Next c rng predExpr idx) = Next d rng predExpr idx"
| "set_cache d (Reduce n rng resultType start accuExpr idx prevRes) =
     Reduce n rng resultType start accuExpr idx prevRes"
| "set_cache d (Combine c ranges candPredExpr idxs) = Combine d ranges candPredExpr idxs"
| "set_cache d (ForwardingOp c wrapped) = ForwardingOp d wrapped"
| "set_cache d (ScaleFactorWithSystOp c wrapped systName variations) =
     ScaleFactorWithSystOp d wrapped systName variations"
| "set_cache d (SystModifiedCollectionOp c wrapped systName variations) =
     SystModifiedCollectionOp d wrapped systName variations"

definition dquote :: char where
  "dquote = CHR 0x22"

definition squote :: char where
  "squote = CHR 0x27"

definition backslash :: char where
  "backslash = CHR 0x5C"

text \<open>
  \<^verbatim>\<open>repr\<close> of a str of printable ASCII characters: double quotes when the string has a single
  quote and no double quote, single quotes otherwise, with backslashes and the enclosing quote
  escaped.
\<close>

fun escape :: "char \<Rightarrow> string \<Rightarrow> string" where
  "escape q [] = []"
| "escape q (ch # cs) =
     (if ch = backslash \<or> ch = q then backslash # ch # escape q cs else ch # escape q cs)"

definition repr_str :: "string \<Rightarrow> string" where
  "repr_str s =
     (if squote \<in> set s \<and> dquote \<notin> set s then dquote # escape dquote s @ [dquote]
      else squote # escape squote s @ [squote])"

fun repr_value :: "pyvalue \<Rightarrow> string" where
  "repr_value (PyStr s) = repr_str s"
| "repr_value (PyInt i) = str_int i"
| "repr_value (PyFloat f) = str_float f"
| "repr_value (PyBool b) = (if b then ''True'' else ''False'')"

definition repr_opt_str :: "string option \<Rightarrow> string" where
  "repr_opt_str h = (case h of None \<Rightarrow> ''None'' | Some s \<Rightarrow> repr_str s)"

definition repr_opt_int :: "int option \<Rightarrow> string" where
  "repr_opt_int i = (case i of None \<Rightarrow> ''None'' | Some n \<Rightarrow> str_int n)"

definition repr_list :: "string list \<Rightarrow> string" where
  "repr_list xs = ''['' @ join '', '' xs @ '']''"

text \<open>\<^verbatim>\<open>repr\<close> of a tuple, from the reprs of its items.\<close>

definition repr_tuple :: "string list \<Rightarrow> string" where
  "repr_tuple xs = (case xs of [x] \<Rightarrow> ''('' @ x @ '',)'' | _ \<Rightarrow> ''('' @ join '', '' xs @ '')'')"

text \<open>
  \<^verbatim>\<open>fromopcache\<close> around \<^verbatim>\<open>__repr__\<close>: the cached text when there is one; otherwise the text
  that \<^verbatim>\<open>_repr\<close> computes, which is stored in the cache unless \<^verbatim>\<open>_repr\<close> raised.
\<close>

definition cached_repr :: "obj \<Rightarrow> pyerror + string \<Rightarrow> pyerror + string" where
  "cached_repr c r = (case c_repr c of Some s \<Rightarrow> Inr s | None \<Rightarrow> r)"

definition store_repr :: "obj \<Rightarrow> pyerror + string \<Rightarrow> obj" where
  "store_repr c r =
     (case c_repr c of Some s \<Rightarrow> c
      | None \<Rightarrow> (case r of Inl e \<Rightarrow> c | Inr s \<Rightarrow> c\<lparr>c_repr := Some s\<rparr>))"

text \<open>Formatting \<^verbatim>\<open>"{0}({1}, {2}, ...)"\<close> from the results of the fields, in order.\<close>

definition fmt_call :: "string \<Rightarrow> (pyerror + string) list \<Rightarrow> pyerror + string" where
  "fmt_call cls rs =
     (case seq_results rs of Inl e \<Rightarrow> Inl e | Inr ss \<Rightarrow> Inr (cls @ ''('' @ join '', '' ss @ '')''))"

definition fmt_join :: "(pyerror + string) list \<Rightarrow> pyerror + string" where
  "fmt_join rs = (case seq_results rs of Inl e \<Rightarrow> Inl e | Inr ss \<Rightarrow> Inr (join '', '' ss))"

definition fmt_tuple :: "(pyerror + string) list \<Rightarrow> pyerror + string" where
  "fmt_tuple rs = (case seq_results rs of Inl e \<Rightarrow> Inl e | Inr ss \<Rightarrow> Inr (repr_tuple ss))"

definition fmt_paren :: "pyerror + string \<Rightarrow> pyerror + string" where
  "fmt_paren r = (case r of Inl e \<Rightarrow> Inl e | Inr s \<Rightarrow> Inr (''('' @ s @ '')''))"

definition fmt_kw :: "string \<Rightarrow> string \<Rightarrow> pyerror + string" where
  "fmt_kw k v = Inr (k @ ''='' @ v)"

text \<open>
  The value of \<^verbatim>\<open>repr(node)\<close> in the present state of the caches: \<^verbatim>\<open>TupleOp.__repr__\<close> with
  each class's \<^verbatim>\<open>_repr\<close>. A \<open>Reduce\<close> object has no \<^verbatim>\<open>_cache\<close>, so \<^verbatim>\<open>fromopcache\<close> raises
  \<open>AttributeError\<close> before \<^verbatim>\<open>Reduce._repr\<close> is reached.

  Modelled from the spec: the repr of a range proxy (module treeproxies, not among the sources)
  is content-based, from the reprs of its nodes.
\<close>

fun py_repr :: "tupleop \<Rightarrow> pyerror + string"
  and repr_rng :: "rngproxy \<Rightarrow> pyerror + string" where
  "py_repr (Const c typeName v) =
     cached_repr c (fmt_call ''Const'' [Inr (repr_str typeName), Inr (repr_value v)])"
| "py_repr (GetColumn c typeName nm) =
     cached_repr c (fmt_call ''GetColumn'' [Inr (repr_str typeName), Inr (repr_str nm)])"
| "py_repr (GetArrayColumn c typeName nm len) =
     cached_repr c (fmt_call ''GetArrayColumn'' [Inr (repr_str typeName), Inr (repr_str nm), py_repr len])"
| "py_repr (MathOp c op args outType) =
     cached_repr c (fmt_call ''MathOp''
       [Inr op, fmt_join (map py_repr args), fmt_kw ''outType'' (repr_str outType)])"
| "py_repr (GetItem c arg typeName idx) =
     cached_repr c (fmt_call ''GetItem'' [py_repr arg, Inr (repr_str typeName), py_repr idx])"
| "py_repr (Construct c typeName args) =
     cached_repr c (fmt_call ''Construct'' [Inr (repr_str typeName), fmt_join (map py_repr args)])"
| "py_repr (CallMethod c nm args retType) =
     cached_repr c (fmt_call ''CallMethod''
       [Inr (repr_str nm), fmt_paren (fmt_join (map py_repr args)),
        fmt_kw ''returnType'' (repr_str retType)])"
| "py_repr (CallMemberMethod c this nm args retType) =
     cached_repr c (fmt_call ''CallMemberMethod''
       [py_repr this, Inr (repr_str nm), fmt_paren (fmt_join (map py_repr args)),
        fmt_kw ''returnType'' (repr_str retType)])"
| "py_repr (GetDataMember c this nm) =
     cached_repr c (fmt_call ''GetDataMember'' [py_repr this, Inr (repr_str nm)])"
| "py_repr (ExtVar c typeName nm) =
     cached_repr c (fmt_call ''ExtVar'' [Inr (repr_str typeName), Inr (repr_str nm)])"
| "py_repr (DefinedVar c typeName defn hint) =
     cached_repr c (fmt_call ''DefinedVar''
       [Inr (repr_str typeName), Inr (repr_str defn), fmt_kw ''nameHint'' (repr_opt_str hint)])"
| "py_repr (InitList c typeName elms) =
     cached_repr c (case fmt_join (map py_repr elms) of Inl e \<Rightarrow> Inl e
       | Inr s \<Rightarrow> Inr (''InitList<'' @ typeName @ ''>('' @ s @ '')''))"
| "py_repr (LocalVariablePlaceholder c typeHint parent i) =
     cached_repr c (fmt_call ''LocalVariablePlaceholder''
       [Inr (repr_str typeHint), fmt_kw ''i'' (repr_opt_int i)])"
| "py_repr (Select c rng predExpr idx) =
     cached_repr c (fmt_call ''Select'' [repr_rng rng, py_repr predExpr, py_repr idx])"
| "py_repr (Sort c rng funExpr idx) =
     cached_repr c (fmt_call ''Sort'' [repr_rng rng, py_repr funExpr, py_repr idx])"
| "py_repr (Map c rng funExpr idx typeName) =
     cached_repr c (fmt_call ''Map''
       [repr_rng rng, py_repr funExpr, py_repr idx, Inr (repr_str typeName)])"
| "py_repr (Next c rng predExpr idx) =
     cached_repr c (fmt_call ''Next'' [repr_rng rng, py_repr predExpr, py_repr idx])"
| "py_repr (Reduce n rng resultType start accuExpr idx prevRes) = Inl AttributeError"
| "py_repr (Combine c ranges candPredExpr idxs) =
     cached_repr c (fmt_call ''Combine''
       [fmt_tuple (map repr_rng ranges), py_repr candPredExpr, fmt_tuple (map py_repr idxs)])"
| "py_repr (ForwardingOp c wrapped) =
     cached_repr c (fmt_call ''ForwardingOp'' [py_repr wrapped])"
| "py_repr (ScaleFactorWithSystOp c wrapped systName variations) =
     cached_repr c (fmt_call ''ScaleFactorWithSystOp''
       [py_repr wrapped, Inr (repr_str systName), Inr (repr_list (map repr_str variations))])"
| "py_repr (SystModifiedCollectionOp c wrapped systName variations) =
     cached_repr c (fmt_call ''SystModifiedCollectionOp''
       [py_repr wrapped, Inr (repr_str systName), Inr (repr_list (map repr_str variations))])"
| "repr_rng (RangeProxy op base idxs) =
     fmt_call ''RangeProxy'' [py_repr op, Inr (repr_str base), py_repr idxs]"

text \<open>
  \<^verbatim>\<open>fromopcache\<close> around \<^verbatim>\<open>__hash__\<close>: the cached hash, or the hash of \<^verbatim>\<open>repr(self)\<close>. The
  hash of a string is a parameter \<open>H\<close>: Python's is seeded per process, and nothing is assumed
  of it, so two strings may collide.
\<close>

definition py_hash :: "(string \<Rightarrow> int) \<Rightarrow> tupleop \<Rightarrow> pyerror + int" where
  "py_hash H t =
     (case get_cache t of None \<Rightarrow> Inl AttributeError
      | Some c \<Rightarrow> (case c_hash c of Some h \<Rightarrow> Inr h
          | None \<Rightarrow> (case py_repr t of Inl e \<Rightarrow> Inl e | Inr s \<Rightarrow> Inr (H s))))"

text \<open>
  The state of the caches after \<^verbatim>\<open>repr(node)\<close> has been evaluated: a node with a cached repr is
  left as it is; otherwise the fields are formatted in order, each caching its own repr, up to
  the first that raises, and the node's text is stored when none raised.
\<close>

fun observe_repr :: "tupleop \<Rightarrow> tupleop"
  and observe_reprs :: "tupleop list \<Rightarrow> tupleop list"
  and observe_rng :: "rngproxy \<Rightarrow> rngproxy"
  and observe_rngs :: "rngproxy list \<Rightarrow> rngproxy list" where
  "observe_repr (Const c typeName v) =
     Const (store_repr c (py_repr (Const c typeName v))) typeName v"
| "observe_repr (GetColumn c typeName nm) =
     GetColumn (store_repr c (py_repr (GetColumn c typeName nm))) typeName nm"
| "observe_repr (GetArrayColumn c typeName nm len) =
     (if c_repr c \<noteq> None then GetArrayColumn c typeName nm len
      else GetArrayColumn (store_repr c (py_repr (GetArrayColumn c typeName nm len))) typeName nm
             (observe_repr len))"
| "observe_repr (MathOp c op args outType) =
     (if c_repr c \<noteq> None then MathOp c op args outType
      else MathOp (store_repr c (py_repr (MathOp c op args outType))) op (observe_reprs args) outType)"
| "observe_repr (GetItem c arg typeName idx) =
     (if c_repr c \<noteq> None then GetItem c arg typeName idx
      else GetItem (store_repr c (py_repr (GetItem c arg typeName idx))) (observe_repr arg) typeName
             (if isl (py_repr arg) then idx else observe_repr idx))"
| "observe_repr (Construct c typeName args) =
     (if c_repr c \<noteq> None then Construct c typeName args
      else Construct (store_repr c (py_repr (Construct c typeName args))) typeName (observe_reprs args))"
| "observe_repr (CallMethod c nm args retType) =
     (if c_repr c \<noteq> None then CallMethod c nm args retType
      else CallMethod (store_repr c (py_repr (CallMethod c nm args retType))) nm (observe_reprs args)
             retType)"
| "observe_repr (CallMemberMethod c this nm args retType) =
     (if c_repr c \<noteq> None then CallMemberMethod c this nm args retType
      else CallMemberMethod (store_repr c (py_repr (CallMemberMethod c this nm args retType)))
             (observe_repr this) nm
             (if isl (py_repr this) then args else observe_reprs args) retType)"
| "observe_repr (GetDataMember c this nm) =
     (if c_repr c \<noteq> None then GetDataMember c this nm
      else GetDataMember (store_repr c (py_repr (GetDataMember c this nm))) (observe_repr this) nm)"
| "observe_repr (ExtVar c typeName nm) =
     ExtVar (store_repr c (py_repr (ExtVar c typeName nm))) typeName nm"
| "observe_repr (DefinedVar c typeName defn hint) =
     DefinedVar (store_repr c (py_repr (DefinedVar c typeName defn hint))) typeName defn hint"
| "observe_repr (InitList c typeName elms) =
     (if c_repr c \<noteq> None then InitList c typeName elms
      else InitList (store_repr c (py_repr (InitList c typeName elms))) typeName (observe_reprs elms))"
| "observe_repr (LocalVariablePlaceholder c typeHint parent i) =
     LocalVariablePlaceholder (store_repr c (py_repr (LocalVariablePlaceholder c typeHint parent i)))
       typeHint parent i"
| "observe_repr (Select c rng predExpr idx) =
     (if c_repr c \<noteq> None then Select c rng predExpr idx
      else Select (store_repr c (py_repr (Select c rng predExpr idx))) (observe_rng rng)
             (if isl (repr_rng rng) then predExpr else observe_repr predExpr)
             (if isl (repr_rng rng) \<or> isl (py_repr predExpr) then idx else observe_repr idx))"
| "observe_repr (Sort c rng funExpr idx) =
     (if c_repr c \<noteq> None then Sort c rng funExpr idx
      else Sort (store_repr c (py_repr (Sort c rng funExpr idx))) (observe_rng rng)
             (if isl (repr_rng rng) then funExpr else observe_repr funExpr)
             (if isl (repr_rng rng) \<or> isl (py_repr funExpr) then idx else observe_repr idx))"
| "observe_repr (Map c rng funExpr idx typeName) =
     (if c_repr c \<noteq> None then Map c rng funExpr idx typeName
      else Map (store_repr c (py_repr (Map c rng funExpr idx typeName))) (observe_rng rng)
             (if isl (repr_rng rng) then funExpr else observe_repr funExpr)
             (if isl (repr_rng rng) \<or> isl (py_repr funExpr) then idx else observe_repr idx) typeName)"
| "observe_repr (Next c rng predExpr idx) =
     (if c_repr c \<noteq> None then Next c rng predExpr idx
      else Next (store_repr c (py_repr (Next c rng predExpr idx))) (observe_rng rng)
             (if isl (repr_rng rng) then predExpr else observe_repr predExpr)
             (if isl (repr_rng rng) \<or> isl (py_repr predExpr) then idx else observe_repr idx))"
| "observe_repr (Reduce n rng resultType start accuExpr idx prevRes) =
     Reduce n rng resultType start accuExpr idx prevRes"
| "observe_repr (Combine c ranges candPredExpr idxs) =
     (if c_repr c \<noteq> None then Combine c ranges candPredExpr idxs
      else Combine (store_repr c (py_repr (Combine c ranges candPredExpr idxs))) (observe_rngs ranges)
             (if isl (fmt_tuple (map repr_rng ranges)) then candPredExpr else observe_repr candPredExpr)
             (if isl (fmt_tuple (map repr_rng ranges)) \<or> isl (py_repr candPredExpr) then idxs
              else observe_reprs idxs))"
| "observe_repr (ForwardingOp c wrapped) =
     (if c_repr c \<noteq> None then ForwardingOp c wrapped
      else ForwardingOp (store_repr c (py_repr (ForwardingOp c wrapped))) (observe_repr wrapped))"
| "observe_repr (ScaleFactorWithSystOp c wrapped systName variations) =
     (if c_repr c \<noteq> None then ScaleFactorWithSystOp c wrapped systName variations
      else ScaleFactorWithSystOp
             (store_repr c (py_repr (ScaleFactorWithSystOp c wrapped systName variations)))
             (observe_repr wrapped) systName variations)"
| "observe_repr (SystModifiedCollectionOp c wrapped systName variations) =
     (if c_repr c \<noteq> None then SystModifiedCollectionOp c wrapped systName variations
      else SystModifiedCollectionOp
             (store_repr c (py_repr (SystModifiedCollectionOp c wrapped systName variations)))
             (observe_repr wrapped) systName variations)"
| "observe_reprs [] = []"
| "observe_reprs (t # ts) =
     observe_repr t # (if isl (py_repr t) then ts else observe_reprs ts)"
| "observe_rng (RangeProxy op base idxs) =
     RangeProxy (observe_repr op) base (if isl (py_repr op) then idxs else observe_repr idxs)"
| "observe_rngs [] = []"
| "observe_rngs (r # rs) =
     observe_rng r # (if isl (repr_rng r) then rs else observe_rngs rs)"

text \<open>
  The state after \<^verbatim>\<open>hash(node)\<close> has been evaluated: \<^verbatim>\<open>__hash__\<close> calls \<^verbatim>\<open>self.__repr__()\<close>,
  which caches the repr, and then the hash is cached.
\<close>

definition observe_hash :: "(string \<Rightarrow> int) \<Rightarrow> tupleop \<Rightarrow> tupleop" where
  "observe_hash H t =
     (case get_cache t of None \<Rightarrow> t
      | Some c \<Rightarrow> (case c_hash c of Some h \<Rightarrow> t
          | None \<Rightarrow> (case py_repr t of Inl e \<Rightarrow> observe_repr t
              | Inr s \<Rightarrow> (case get_cache (observe_repr t) of None \<Rightarrow> observe_repr t
                  | Some d \<Rightarrow> set_cache (d\<lparr>c_hash := Some (H s)\<rparr>) (observe_repr t)))))"

section \<open>Systematic variations\<close>

text \<open>The attribute \<^verbatim>\<open>args\<close>, which four classes have.\<close>

fun get_args :: "tupleop \<Rightarrow> pyerror + tupleop list" where
  "get_args (MathOp c op args outType) = Inr args"
| "get_args (Construct c typeName args) = Inr args"
| "get_args (CallMethod c nm args retType) = Inr args"
| "get_args (CallMemberMethod c this nm args retType) = Inr args"
| "get_args t = Inl AttributeError"

fun set_args :: "tupleop list \<Rightarrow> tupleop \<Rightarrow> tupleop" where
  "set_args as (MathOp c op args outType) = MathOp c op as outType"
| "set_args as (Construct c typeName args) = Construct c typeName as"
| "set_args as (CallMethod c nm args retType) = CallMethod c nm as retType"
| "set_args as (CallMemberMethod c this nm args retType) = CallMemberMethod c this nm as retType"
| "set_args as t = t"

text \<open>The attribute \<^verbatim>\<open>name\<close>: a field of six classes, a property of the placeholder.\<close>

fun get_name :: "tupleop \<Rightarrow> pyerror + string" where
  "get_name (GetColumn c typeName nm) = Inr nm"
| "get_name (GetArrayColumn c typeName nm len) = Inr nm"
| "get_name (CallMethod c nm args retType) = Inr nm"
| "get_name (CallMemberMethod c this nm args retType) = Inr nm"
| "get_name (GetDataMember c this nm) = Inr nm"
| "get_name (ExtVar c typeName nm) = Inr nm"
| "get_name (LocalVariablePlaceholder c typeHint parent i) = name i"
| "get_name t = Inl AttributeError"

text \<open>The assignment \<^verbatim>\<open>node.name = v\<close>; the cache of the node is not touched.\<close>

fun set_name :: "string \<Rightarrow> tupleop \<Rightarrow> tupleop" where
  "set_name v (GetColumn c typeName nm) = GetColumn c typeName v"
| "set_name v (GetArrayColumn c typeName nm len) = GetArrayColumn c typeName v len"
| "set_name v (CallMethod c nm args retType) = CallMethod c v args retType"
| "set_name v (CallMemberMethod c this nm args retType) = CallMemberMethod c this v args retType"
| "set_name v (GetDataMember c this nm) = GetDataMember c this v"
| "set_name v (ExtVar c typeName nm) = ExtVar c typeName v"
| "set_name v t = t"

text \<open>The attribute \<^verbatim>\<open>value\<close>, of \<open>Const\<close> only.\<close>

fun get_value :: "tupleop \<Rightarrow> pyerror + pyvalue" where
  "get_value (Const c typeName v) = Inr v"
| "get_value t = Inl AttributeError"

fun set_value :: "pyvalue \<Rightarrow> tupleop \<Rightarrow> tupleop" where
  "set_value w (Const c typeName v) = Const c typeName w"
| "set_value w t = t"

text \<open>\<^verbatim>\<open>str.startswith\<close> and \<^verbatim>\<open>str.capitalize\<close>, on ASCII.\<close>

definition startswith :: "string \<Rightarrow> string \<Rightarrow> bool" where
  "startswith s p = (take (length p) s = p)"

definition upper_char :: "char \<Rightarrow> char" where
  "upper_char ch = (let n = (of_char ch :: nat) in if 97 \<le> n \<and> n \<le> 122 then char_of (n - 32) else ch)"

definition lower_char :: "char \<Rightarrow> char" where
  "lower_char ch = (let n = (of_char ch :: nat) in if 65 \<le> n \<and> n \<le> 90 then char_of (n + 32) else ch)"

definition capitalize :: "string \<Rightarrow> string" where
  "capitalize s = (case s of [] \<Rightarrow> [] | ch # cs \<Rightarrow> upper_char ch # map lower_char cs)"

definition frozen_error :: pyerror where
  "frozen_error = RuntimeError ''Cannot change variation of an expression that is already frozen''"

text \<open>
  \<^verbatim>\<open>changeVariation\<close> of the two variation wrappers; of any other class it is not defined
  (\<open>AttributeError\<close>). The method mutates \<^verbatim>\<open>self.wrapped.args[-1].name\<close> (respectively
  \<^verbatim>\<open>self.wrapped.args[0].value\<close>) in place and returns nothing: the result is the wrapper after
  the call.
\<close>

definition ScaleFactorWithSystOp_changeVariation ::
  "obj \<Rightarrow> tupleop \<Rightarrow> string \<Rightarrow> string list \<Rightarrow> string \<Rightarrow> pyerror + tupleop" where
  "ScaleFactorWithSystOp_changeVariation c wrapped systName variations newVariation =
     (if cache_bool c then Inl frozen_error
      else if newVariation \<notin> set variations then Inl (ValueError (''Invalid variation: '' @ newVariation))
      else let nv = capitalize (if startswith newVariation systName
                                then drop (length systName) newVariation else newVariation)
       in case get_args wrapped of Inl e \<Rightarrow> Inl e
          | Inr args \<Rightarrow>
              (if args = [] then Inl IndexError
               else case get_name (last args) of Inl e \<Rightarrow> Inl e
                    | Inr nm \<Rightarrow>
                        (if nm = ''Nominal'' \<and> nv \<noteq> nm
                         then Inr (ScaleFactorWithSystOp c
                                (set_args (butlast args @ [set_name nv (last args)]) wrapped)
                                systName variations)
                         else Inr (ScaleFactorWithSystOp c wrapped systName variations))))"

definition quoted :: "string \<Rightarrow> string" where
  "quoted s = dquote # s @ [dquote]"

definition SystModifiedCollectionOp_changeVariation ::
  "obj \<Rightarrow> tupleop \<Rightarrow> string \<Rightarrow> string list \<Rightarrow> string \<Rightarrow> pyerror + tupleop" where
  "SystModifiedCollectionOp_changeVariation c wrapped systName variations newCollection =
     (if cache_bool c then Inl frozen_error
      else if newCollection \<notin> set variations then Inl (ValueError (''Invalid collection: '' @ newCollection))
      else case get_args wrapped of Inl e \<Rightarrow> Inl e
          | Inr args \<Rightarrow>
              (case args of [] \<Rightarrow> Inl IndexError
               | a # as \<Rightarrow>
                  (case get_value a of Inl e \<Rightarrow> Inl e
                   | Inr v \<Rightarrow>
                       (if v = PyStr (quoted ''nominal'') \<and> newCollection \<noteq> ''nominal''
                        then Inr (SystModifiedCollectionOp c
                               (set_args (set_value (PyStr (quoted newCollection)) a # as) wrapped)
                               systName variations)
                        else Inr (SystModifiedCollectionOp c wrapped systName variations)))))"

fun changeVariation :: "tupleop \<Rightarrow> string \<Rightarrow> pyerror + tupleop" where
  "changeVariation (ScaleFactorWithSystOp c wrapped systName variations) v =
     ScaleFactorWithSystOp_changeVariation c wrapped systName variations v"
| "changeVariation (SystModifiedCollectionOp c wrapped systName variations) v =
     SystModifiedCollectionOp_changeVariation c wrapped systName variations v"
| "changeVariation t v = Inl AttributeError"

text \<open>The wrapped node of a wrapper, and its variation selector operand.\<close>

fun wrapped_of :: "tupleop \<Rightarrow> tupleop option" where
  "wrapped_of (ForwardingOp c wrapped) = Some wrapped"
| "wrapped_of (ScaleFactorWithSystOp c wrapped systName variations) = Some wrapped"
| "wrapped_of (SystModifiedCollectionOp c wrapped systName variations) = Some wrapped"
| "wrapped_of t = None"

fun is_variation_wrapper :: "tupleop \<Rightarrow> bool" where
  "is_variation_wrapper (ScaleFactorWithSystOp c wrapped systName variations) = True"
| "is_variation_wrapper (SystModifiedCollectionOp c wrapped systName variations) = True"
| "is_variation_wrapper t = False"

fun variations_of :: "tupleop \<Rightarrow> string list" where
  "variations_of (ScaleFactorWithSystOp c wrapped systName variations) = variations"
| "variations_of (SystModifiedCollectionOp c wrapped systName variations) = variations"
| "variations_of t = []"

text \<open>
  The wrapped node has a variation selector operand that \<^verbatim>\<open>changeVariation\<close> can read:
  \<^verbatim>\<open>wrapped.args[-1].name\<close>, respectively \<^verbatim>\<open>wrapped.args[0].value\<close>.
\<close>

fun has_selector :: "tupleop \<Rightarrow> bool" where
  "has_selector (ScaleFactorWithSystOp c wrapped systName variations) =
     (case get_args wrapped of Inl e \<Rightarrow> False
      | Inr args \<Rightarrow> args \<noteq> [] \<and> \<not> isl (get_name (last args)))"
| "has_selector (SystModifiedCollectionOp c wrapped systName variations) =
     (case get_args wrapped of Inl e \<Rightarrow> False
      | Inr args \<Rightarrow> args \<noteq> [] \<and> \<not> isl (get_value (hd args)))"
| "has_selector t = False"

text \<open>The selector operand holds the nominal value.\<close>

fun holds_nominal :: "tupleop \<Rightarrow> bool" where
  "holds_nominal (ScaleFactorWithSystOp c wrapped systName variations) =
     (case get_args wrapped of Inl e \<Rightarrow> False
      | Inr args \<Rightarrow> args \<noteq> [] \<and> get_name (last args) = Inr ''Nominal'')"
| "holds_nominal (SystModifiedCollectionOp c wrapped systName variations) =
     (case get_args wrapped of Inl e \<Rightarrow> False
      | Inr args \<Rightarrow> args \<noteq> [] \<and> get_value (hd args) = Inr (PyStr (quoted ''nominal'')))"
| "holds_nominal t = False"

text \<open>The frozen state of a node: its hash or its repr has been observed.\<close>

definition is_frozen :: "tupleop \<Rightarrow> bool" where
  "is_frozen t = (case get_cache t of None \<Rightarrow> False | Some c \<Rightarrow> cache_bool c)"

text \<open>A scale factor lookup \<^verbatim>\<open>sf.get(Nominal)\<close> and its wrapper, for the examples.\<close>

definition hash0 :: "string \<Rightarrow> int" where
  "hash0 s = int (length s)"

definition ex_lookup :: "string \<Rightarrow> tupleop" where
  "ex_lookup sel = CallMemberMethod (new_obj 2) (ExtVar (new_obj 1) ''ILeptonScaleFactor'' ''sf'')
     ''get'' [ExtVar (new_obj 0) ''int'' sel] ''float''"

definition ex_sf :: "string \<Rightarrow> tupleop" where
  "ex_sf sel = ScaleFactorWithSystOp (new_obj 3) (ex_lookup sel) ''x'' [''xup'', ''xdown'']"

section \<open>Equality\<close>

text \<open>\<^verbatim>\<open>self.__class__.__name__\<close>.\<close>

fun class_name :: "tupleop \<Rightarrow> string" where
  "class_name (Const c typeName v) = ''Const''"
| "class_name (GetColumn c typeName nm) = ''GetColumn''"
| "class_name (GetArrayColumn c typeName nm len) = ''GetArrayColumn''"
| "class_name (MathOp c op args outType) = ''MathOp''"
| "class_name (GetItem c arg typeName idx) = ''GetItem''"
| "class_name (Construct c typeName args) = ''Construct''"
| "class_name (CallMethod c nm args retType) = ''CallMethod''"
| "class_name (CallMemberMethod c this nm args retType) = ''CallMemberMethod''"
| "class_name (GetDataMember c this nm) = ''GetDataMember''"
| "class_name (ExtVar c typeName nm) = ''ExtVar''"
| "class_name (DefinedVar c typeName defn hint) = ''DefinedVar''"
| "class_name (InitList c typeName elms) = ''InitList''"
| "class_name (LocalVariablePlaceholder c typeHint parent i) = ''LocalVariablePlaceholder''"
| "class_name (Select c rng predExpr idx) = ''Select''"
| "class_name (Sort c rng funExpr idx) = ''Sort''"
| "class_name (Map c rng funExpr idx typeName) = ''Map''"
| "class_name (Next c rng predExpr idx) = ''Next''"
| "class_name (Reduce n rng resultType start accuExpr idx prevRes) = ''Reduce''"
| "class_name (Combine c ranges candPredExpr idxs) = ''Combine''"
| "class_name (ForwardingOp c wrapped) = ''ForwardingOp''"
| "class_name (ScaleFactorWithSystOp c wrapped systName variations) = ''ScaleFactorWithSystOp''"
| "class_name (SystModifiedCollectionOp c wrapped systName variations) = ''SystModifiedCollectionOp''"

text \<open>\<^verbatim>\<open>a and b\<close> on comparisons that may raise: \<open>b\<close> is evaluated only when \<open>a\<close> is true.\<close>

definition and_also :: "pyerror + bool \<Rightarrow> pyerror + bool \<Rightarrow> pyerror + bool" where
  "and_also a b = (case a of Inl e \<Rightarrow> Inl e | Inr p \<Rightarrow> if p then b else Inr False)"

text \<open>\<^verbatim>\<open>repr(self._parent)\<close>, where the parent may be \<open>None\<close>.\<close>

definition repr_parent :: "tupleop option \<Rightarrow> pyerror + string" where
  "repr_parent p = (case p of None \<Rightarrow> Inr ''None'' | Some t \<Rightarrow> py_repr t)"

definition eq_results :: "pyerror + string \<Rightarrow> pyerror + string \<Rightarrow> pyerror + bool" where
  "eq_results a b =
     (case a of Inl e \<Rightarrow> Inl e | Inr s \<Rightarrow> (case b of Inl e \<Rightarrow> Inl e | Inr t \<Rightarrow> Inr (s = t)))"

text \<open>
  \<^verbatim>\<open>TupleOp.__eq__\<close> (\<open>py_eq\<close>) and the \<^verbatim>\<open>_eq\<close> of each class (\<open>impl_eq\<close>), as values in
  the present state of the caches; \<open>tuple_eq\<close> is the equality of two tuples of nodes, which
  compares item by item up to the first difference and then the lengths.

  Modelled from the spec: the equality of two range proxies (module treeproxies, not among the
  sources) is the equality of their nodes and of their underlying collections.
\<close>

fun py_eq :: "(string \<Rightarrow> int) \<Rightarrow> tupleop \<Rightarrow> tupleop \<Rightarrow> pyerror + bool"
  and impl_eq :: "(string \<Rightarrow> int) \<Rightarrow> tupleop \<Rightarrow> tupleop \<Rightarrow> pyerror + bool"
  and tuple_eq :: "(string \<Rightarrow> int) \<Rightarrow> tupleop list \<Rightarrow> tupleop list \<Rightarrow> pyerror + bool"
  and rng_eq :: "(string \<Rightarrow> int) \<Rightarrow> rngproxy \<Rightarrow> rngproxy \<Rightarrow> pyerror + bool"
  and rngs_eq :: "(string \<Rightarrow> int) \<Rightarrow> rngproxy list \<Rightarrow> rngproxy list \<Rightarrow> pyerror + bool" where
  "py_eq H a b =
     (if py_id a = py_id b then Inr True
      else case py_hash H a of Inl e \<Rightarrow> Inl e
        | Inr ha \<Rightarrow> (case py_hash H b of Inl e \<Rightarrow> Inl e
            | Inr hb \<Rightarrow> if ha \<noteq> hb then Inr False
                         else if class_name a \<noteq> class_name b then Inr False
                         else impl_eq H a b))"
| "impl_eq H (Const c typeName v) b =
     (case b of Const c' typeName' v' \<Rightarrow> Inr (typeName = typeName' \<and> v = v') | _ \<Rightarrow> Inr False)"
| "impl_eq H (GetColumn c typeName nm) b =
     (case b of GetColumn c' typeName' nm' \<Rightarrow> Inr (typeName = typeName' \<and> nm = nm') | _ \<Rightarrow> Inr False)"
| "impl_eq H (GetArrayColumn c typeName nm len) b =
     (case b of GetArrayColumn c' typeName' nm' len' \<Rightarrow>
        and_also (Inr (typeName = typeName' \<and> nm = nm')) (py_eq H len len')
      | _ \<Rightarrow> Inr False)"
| "impl_eq H (MathOp c op args outType) b =
     (case b of MathOp c' op' args' outType' \<Rightarrow>
        and_also (Inr (outType = outType' \<and> op = op')) (tuple_eq H args args')
      | _ \<Rightarrow> Inr False)"
| "impl_eq H (GetItem c arg typeName idx) b =
     (case b of GetItem c' arg' typeName' idx' \<Rightarrow>
        and_also (py_eq H arg arg') (and_also (Inr (typeName = typeName')) (py_eq H idx idx'))
      | _ \<Rightarrow> Inr False)"
| "impl_eq H (Construct c typeName args) b =
     (case b of Construct c' typeName' args' \<Rightarrow>
        and_also (Inr (typeName = typeName')) (tuple_eq H args args')
      | _ \<Rightarrow> Inr False)"
| "impl_eq H (CallMethod c nm args retType) b =
     (case b of CallMethod c' nm' args' retType' \<Rightarrow>
        and_also (Inr (nm = nm' \<and> retType = retType')) (tuple_eq H args args')
      | _ \<Rightarrow> Inr False)"
| "impl_eq H (CallMemberMethod c this nm args retType) b =
     (case b of CallMemberMethod c' this' nm' args' retType' \<Rightarrow>
        and_also (py_eq H this this')
          (and_also (Inr (nm = nm' \<and> retType = retType')) (tuple_eq H args args'))
      | _ \<Rightarrow> Inr False)"
| "impl_eq H (GetDataMember c this nm) b =
     (case b of GetDataMember c' this' nm' \<Rightarrow> and_also (py_eq H this this') (Inr (nm = nm'))
      | _ \<Rightarrow> Inr False)"
| "impl_eq H (ExtVar c typeName nm) b =
     (case b of ExtVar c' typeName' nm' \<Rightarrow> Inr (typeName = typeName' \<and> nm = nm') | _ \<Rightarrow> Inr False)"
| "impl_eq H (DefinedVar c typeName defn hint) b =
     (case b of DefinedVar c' typeName' defn' hint' \<Rightarrow>
        Inr (typeName = typeName' \<and> defn = defn' \<and> hint = hint')
      | _ \<Rightarrow> Inr False)"
| "impl_eq H (InitList c typeName elms) b =
     (case b of InitList c' typeName' elms' \<Rightarrow>
        and_also (Inr (typeName = typeName')) (tuple_eq H elms elms')
      | _ \<Rightarrow> Inr False)"
| "impl_eq H (LocalVariablePlaceholder c typeHint parent i) b =
     (case b of LocalVariablePlaceholder c' typeHint' parent' i' \<Rightarrow>
        and_also (Inr (typeHint = typeHint'))
          (and_also (eq_results (repr_parent parent) (repr_parent parent')) (Inr (i = i')))
      | _ \<Rightarrow> Inr False)"
| "impl_eq H (Select c rng predExpr idx) b =
     (case b of Select c' rng' predExpr' idx' \<Rightarrow>
        and_also (rng_eq H rng rng') (and_also (py_eq H predExpr predExpr') (py_eq H idx idx'))
      | _ \<Rightarrow> Inr False)"
| "impl_eq H (Sort c rng funExpr idx) b =
     (case b of Sort c' rng' funExpr' idx' \<Rightarrow>
        and_also (rng_eq H rng rng') (and_also (py_eq H funExpr funExpr') (py_eq H idx idx'))
      | _ \<Rightarrow> Inr False)"
| "impl_eq H (Map c rng funExpr idx typeName) b =
     (case b of Map c' rng' funExpr' idx' typeName' \<Rightarrow>
        and_also (rng_eq H rng rng')
          (and_also (py_eq H funExpr funExpr')
            (and_also (py_eq H idx idx') (Inr (typeName = typeName'))))
      | _ \<Rightarrow> Inr False)"
| "impl_eq H (Next c rng predExpr idx) b =
     (case b of Next c' rng' predExpr' idx' \<Rightarrow>
        and_also (rng_eq H rng rng') (and_also (py_eq H predExpr predExpr') (py_eq H idx idx'))
      | _ \<Rightarrow> Inr False)"
| "impl_eq H (Reduce n rng resultType start accuExpr idx prevRes) b =
     (case b of Reduce n' rng' resultType' start' accuExpr' idx' prevRes' \<Rightarrow>
        and_also (rng_eq H rng rng')
          (and_also (Inr (resultType = resultType'))
            (and_also (py_eq H start start')
              (and_also (py_eq H accuExpr accuExpr')
                (and_also (py_eq H idx idx') (py_eq H prevRes prevRes')))))
      | _ \<Rightarrow> Inr False)"
| "impl_eq H (Combine c ranges candPredExpr idxs) b =
     (case b of Combine c' ranges' candPredExpr' idxs' \<Rightarrow>
        and_also (rngs_eq H ranges ranges')
          (and_also (py_eq H candPredExpr candPredExpr') (tuple_eq H idxs idxs'))
      | _ \<Rightarrow> Inr False)"
| "impl_eq H (ForwardingOp c wrapped) b =
     (case b of ForwardingOp c' wrapped' \<Rightarrow> py_eq H wrapped wrapped' | _ \<Rightarrow> Inr False)"
| "impl_eq H (ScaleFactorWithSystOp c wrapped systName variations) b =
     (case b of ScaleFactorWithSystOp c' wrapped' systName' variations' \<Rightarrow>
        and_also (py_eq H wrapped wrapped') (Inr (systName = systName' \<and> variations = variations'))
      | _ \<Rightarrow> Inr False)"
| "impl_eq H (SystModifiedCollectionOp c wrapped systName variations) b =
     (case b of SystModifiedCollectionOp c' wrapped' systName' variations' \<Rightarrow>
        and_also (py_eq H wrapped wrapped') (Inr (systName = systName' \<and> variations = variations'))
      | _ \<Rightarrow> Inr False)"
| "tuple_eq H [] ys = Inr (ys = [])"
| "tuple_eq H (x # xs) [] = Inr False"
| "tuple_eq H (x # xs) (y # ys) = and_also (py_eq H x y) (tuple_eq H xs ys)"
| "rng_eq H (RangeProxy op base idxs) r =
     (case r of RangeProxy op' base' idxs' \<Rightarrow>
        and_also (py_eq H op op') (and_also (Inr (base = base')) (py_eq H idxs idxs')))"
| "rngs_eq H [] rs = Inr (rs = [])"
| "rngs_eq H (r # rs) [] = Inr False"
| "rngs_eq H (r # rs) (r' # rs') = and_also (rng_eq H r r') (rngs_eq H rs rs')"

section \<open>Dependencies\<close>

text \<open>
  What a \<^verbatim>\<open>deps\<close> generator can yield, and what \<^verbatim>\<open>select\<close> can be applied to: a node, a
  range proxy, or \<open>None\<close> (a bare \<^verbatim>\<open>yield\<close>).
\<close>

datatype pyobj = Op tupleop | Proxy rngproxy | PyNone

text \<open>
  The arguments of \<^verbatim>\<open>deps\<close>: \<^verbatim>\<open>defCache._getColName\<close>, \<^verbatim>\<open>select\<close>, \<^verbatim>\<open>includeLocal\<close>, and the
  hash of strings that \<^verbatim>\<open>==\<close> uses. \<^verbatim>\<open>Reduce.deps\<close> and \<^verbatim>\<open>Combine.deps\<close> call \<^verbatim>\<open>deps\<close>
  on range proxies; the proxy classes are not among the sources, so what that call yields is a
  parameter, \<open>proxyDeps\<close>.
\<close>

record walk =
  colName :: "tupleop \<Rightarrow> string option"
  proxyDeps :: "rngproxy \<Rightarrow> pyerror + pyobj list"
  strHash :: "string \<Rightarrow> int"
  select :: "pyobj \<Rightarrow> bool"
  includeLocal :: bool

text \<open>\<^verbatim>\<open>not defCache._getColName(self)\<close>.\<close>

definition no_col :: "walk \<Rightarrow> tupleop \<Rightarrow> bool" where
  "no_col w t = (case colName w t of None \<Rightarrow> True | Some s \<Rightarrow> s = [])"

text \<open>
  \<^verbatim>\<open>dp != self._i\<close>: \<^verbatim>\<open>TupleOp.__eq__\<close>, negated. When \<open>dp\<close> is \<open>None\<close> the reflected
  comparison is \<^verbatim>\<open>self._i.__eq__(None)\<close>, which hashes \<^verbatim>\<open>self._i\<close> and finds another class.
\<close>

definition ne_obj :: "(string \<Rightarrow> int) \<Rightarrow> pyobj \<Rightarrow> tupleop \<Rightarrow> pyerror + bool" where
  "ne_obj H dp t =
     (case dp of
        Op d \<Rightarrow> (case py_eq H d t of Inl e \<Rightarrow> Inl e | Inr b \<Rightarrow> Inr (\<not> b))
      | Proxy r \<Rightarrow> Inr True
      | PyNone \<Rightarrow> (case py_hash H t of Inl e \<Rightarrow> Inl e | Inr h \<Rightarrow> Inr True))"

text \<open>\<^verbatim>\<open>dp not in items\<close>: each item is compared with \<open>dp\<close>, up to the first that is equal.\<close>

fun not_in :: "(string \<Rightarrow> int) \<Rightarrow> pyobj \<Rightarrow> tupleop list \<Rightarrow> pyerror + bool" where
  "not_in H dp [] = Inr True"
| "not_in H dp (x # xs) =
     (case (case dp of Op d \<Rightarrow> py_eq H x d
                     | Proxy r \<Rightarrow> Inr False
                     | PyNone \<Rightarrow> (case py_hash H x of Inl e \<Rightarrow> Inl e | Inr h \<Rightarrow> Inr False)) of
        Inl e \<Rightarrow> Inl e
      | Inr b \<Rightarrow> if b then Inr False else not_in H dp xs)"

text \<open>The loop \<^verbatim>\<open>for dp in ...: if includeLocal or <test>: yield dp\<close>.\<close>

fun keep_deps :: "bool \<Rightarrow> (pyobj \<Rightarrow> pyerror + bool) \<Rightarrow> pyobj list \<Rightarrow> pyerror + pyobj list" where
  "keep_deps incl test [] = Inr []"
| "keep_deps incl test (dp # dps) =
     (case (if incl then Inr True else test dp) of
        Inl e \<Rightarrow> Inl e
      | Inr b \<Rightarrow> (case keep_deps incl test dps of Inl e \<Rightarrow> Inl e
                  | Inr ds \<Rightarrow> Inr (if b then dp # ds else ds)))"

definition keep_result :: "bool \<Rightarrow> (pyobj \<Rightarrow> pyerror + bool) \<Rightarrow> pyerror + pyobj list \<Rightarrow> pyerror + pyobj list" where
  "keep_result incl test r = (case r of Inl e \<Rightarrow> Inl e | Inr ds \<Rightarrow> keep_deps incl test ds)"

text \<open>What one loop iteration yields: \<open>first\<close> when the argument is selected, then the rest.\<close>

definition yield_then :: "bool \<Rightarrow> pyobj \<Rightarrow> pyerror + pyobj list \<Rightarrow> pyerror + pyobj list" where
  "yield_then sel first r =
     (case r of Inl e \<Rightarrow> Inl e | Inr ds \<Rightarrow> Inr ((if sel then [first] else []) @ ds))"

fun concat_results :: "(pyerror + 'a list) list \<Rightarrow> pyerror + 'a list" where
  "concat_results [] = Inr []"
| "concat_results (r # rs) =
     (case r of Inl e \<Rightarrow> Inl e
      | Inr xs \<Rightarrow> (case concat_results rs of Inl e \<Rightarrow> Inl e | Inr ys \<Rightarrow> Inr (xs @ ys)))"

text \<open>
  The \<^verbatim>\<open>deps\<close> generator of each class, run to its end: everything it yields, in order, or the
  exception that stops it. \<^verbatim>\<open>Reduce.deps\<close> and \<^verbatim>\<open>Combine.deps\<close> have a bare \<^verbatim>\<open>yield\<close> for a
  selected argument, and take the range proxies themselves as arguments.
\<close>

fun deps :: "walk \<Rightarrow> tupleop \<Rightarrow> pyerror + pyobj list" where
  "deps w (Const c typeName v) = Inr []"
| "deps w (GetColumn c typeName nm) = Inr []"
| "deps w (GetArrayColumn c typeName nm len) = yield_then (select w (Op len)) (Op len) (deps w len)"
| "deps w (MathOp c op args outType) =
     (if no_col w (MathOp c op args outType)
      then concat_results (map (\<lambda>a. yield_then (select w (Op a)) (Op a) (deps w a)) args)
      else Inr [])"
| "deps w (GetItem c arg typeName idx) =
     concat_results [yield_then (select w (Op arg)) (Op arg) (deps w arg),
                     yield_then (select w (Op idx)) (Op idx) (deps w idx)]"
| "deps w (Construct c typeName args) =
     (if no_col w (Construct c typeName args)
      then concat_results (map (\<lambda>a. yield_then (select w (Op a)) (Op a) (deps w a)) args)
      else Inr [])"
| "deps w (CallMethod c nm args retType) =
     (if no_col w (CallMethod c nm args retType)
      then concat_results (map (\<lambda>a. yield_then (select w (Op a)) (Op a) (deps w a)) args)
      else Inr [])"
| "deps w (CallMemberMethod c this nm args retType) =
     (if no_col w (CallMemberMethod c this nm args retType)
      then concat_results (yield_then (select w (Op this)) (Op this) (deps w this)
             # map (\<lambda>a. yield_then (select w (Op a)) (Op a) (deps w a)) args)
      else Inr [])"
| "deps w (GetDataMember c this nm) =
     (if no_col w (GetDataMember c this nm)
      then yield_then (select w (Op this)) (Op this) (deps w this)
      else Inr [])"
| "deps w (ExtVar c typeName nm) = Inr []"
| "deps w (DefinedVar c typeName defn hint) = Inr []"
| "deps w (InitList c typeName elms) =
     (if no_col w (InitList c typeName elms)
      then concat_results (map (\<lambda>a. yield_then (select w (Op a)) (Op a) (deps w a)) elms)
      else Inr [])"
| "deps w (LocalVariablePlaceholder c typeHint parent i) = Inr []"
| "deps w (Select c (RangeProxy rop base ridxs) predExpr idx) =
     (if no_col w (Select c (RangeProxy rop base ridxs) predExpr idx)
      then concat_results
        [yield_then (select w (Op rop)) (Op rop)
           (keep_result (includeLocal w) (\<lambda>dp. ne_obj (strHash w) dp idx) (deps w rop)),
         yield_then (select w (Op predExpr)) (Op predExpr)
           (keep_result (includeLocal w) (\<lambda>dp. ne_obj (strHash w) dp idx) (deps w predExpr))]
      else Inr [])"
| "deps w (Sort c (RangeProxy rop base ridxs) funExpr idx) =
     (if no_col w (Sort c (RangeProxy rop base ridxs) funExpr idx)
      then concat_results
        [yield_then (select w (Op rop)) (Op rop)
           (keep_result (includeLocal w) (\<lambda>dp. ne_obj (strHash w) dp idx) (deps w rop)),
         yield_then (select w (Op funExpr)) (Op funExpr)
           (keep_result (includeLocal w) (\<lambda>dp. ne_obj (strHash w) dp idx) (deps w funExpr))]
      else Inr [])"
| "deps w (Map c (RangeProxy rop base ridxs) funExpr idx typeName) =
     (if no_col w (Map c (RangeProxy rop base ridxs) funExpr idx typeName)
      then concat_results
        [yield_then (select w (Op rop)) (Op rop)
           (keep_result (includeLocal w) (\<lambda>dp. ne_obj (strHash w) dp idx) (deps w rop)),
         yield_then (select w (Op funExpr)) (Op funExpr)
           (keep_result (includeLocal w) (\<lambda>dp. ne_obj (strHash w) dp idx) (deps w funExpr))]
      else Inr [])"
| "deps w (Next c (RangeProxy rop base ridxs) predExpr idx) =
     (if no_col w (Next c (RangeProxy rop base ridxs) predExpr idx)
      then concat_results
        [yield_then (select w (Op rop)) (Op rop)
           (keep_result (includeLocal w) (\<lambda>dp. ne_obj (strHash w) dp idx) (deps w rop)),
         yield_then (select w (Op predExpr)) (Op predExpr)
           (keep_result (includeLocal w) (\<lambda>dp. ne_obj (strHash w) dp idx) (deps w predExpr))]
      else Inr [])"
| "deps w (Reduce n rng resultType start accuExpr idx prevRes) =
     (if no_col w (Reduce n rng resultType start accuExpr idx prevRes)
      then concat_results
        [yield_then (select w (Proxy rng)) PyNone
           (keep_result (includeLocal w) (\<lambda>dp. not_in (strHash w) dp [idx, prevRes]) (proxyDeps w rng)),
         yield_then (select w (Op start)) PyNone
           (keep_result (includeLocal w) (\<lambda>dp. not_in (strHash w) dp [idx, prevRes]) (deps w start)),
         yield_then (select w (Op accuExpr)) PyNone
           (keep_result (includeLocal w) (\<lambda>dp. not_in (strHash w) dp [idx, prevRes]) (deps w accuExpr))]
      else Inr [])"
| "deps w (Combine c ranges candPredExpr idxs) =
     (if no_col w (Combine c ranges candPredExpr idxs)
      then concat_results
        (map (\<lambda>r. yield_then (select w (Proxy r)) PyNone
                 (keep_result (includeLocal w) (\<lambda>dp. not_in (strHash w) dp idxs) (proxyDeps w r)))
           ranges
         @ [yield_then (select w (Op candPredExpr)) PyNone
              (keep_result (includeLocal w) (\<lambda>dp. not_in (strHash w) dp idxs) (deps w candPredExpr))])
      else Inr [])"
| "deps w (ForwardingOp c wrapped) = deps w wrapped"
| "deps w (ScaleFactorWithSystOp c wrapped systName variations) = deps w wrapped"
| "deps w (SystModifiedCollectionOp c wrapped systName variations) = deps w wrapped"

text \<open>
  \<^verbatim>\<open>collectNodes\<close>: \<^verbatim>\<open>deps\<close> with its default resolver \<^verbatim>\<open>cppNoRedir\<close>, whose \<^verbatim>\<open>_getColName\<close>
  returns \<open>None\<close>, and with \<^verbatim>\<open>includeLocal=True\<close>.
\<close>

definition collect_walk ::
  "(rngproxy \<Rightarrow> pyerror + pyobj list) \<Rightarrow> (string \<Rightarrow> int) \<Rightarrow> (pyobj \<Rightarrow> bool) \<Rightarrow> walk" where
  "collect_walk pd H sel =
     \<lparr>colName = (\<lambda>t. None), proxyDeps = pd, strHash = H, select = sel, includeLocal = True\<rparr>"

definition collectNodes ::
  "(rngproxy \<Rightarrow> pyerror + pyobj list) \<Rightarrow> (string \<Rightarrow> int) \<Rightarrow> (pyobj \<Rightarrow> bool) \<Rightarrow> tupleop
     \<Rightarrow> pyerror + pyobj list" where
  "collectNodes pd H sel expr = yield_then (sel (Op expr)) (Op expr) (deps (collect_walk pd H sel) expr)"

section \<open>Higher-order operations\<close>

text \<open>
  Assignment to the fields \<^verbatim>\<open>_parent\<close> and \<^verbatim>\<open>i\<close> of the placeholder object with identity \<open>k\<close>:
  every occurrence of that object in the graph sees the new values.
\<close>

fun upd_lvp :: "nat \<Rightarrow> (tupleop option \<Rightarrow> tupleop option) \<Rightarrow> (int option \<Rightarrow> int option) \<Rightarrow> tupleop \<Rightarrow> tupleop"
  and upd_rng :: "nat \<Rightarrow> (tupleop option \<Rightarrow> tupleop option) \<Rightarrow> (int option \<Rightarrow> int option) \<Rightarrow> rngproxy \<Rightarrow> rngproxy" where
  "upd_lvp k fp fi (Const c typeName v) = Const c typeName v"
| "upd_lvp k fp fi (GetColumn c typeName nm) = GetColumn c typeName nm"
| "upd_lvp k fp fi (GetArrayColumn c typeName nm len) = GetArrayColumn c typeName nm (upd_lvp k fp fi len)"
| "upd_lvp k fp fi (MathOp c op args outType) = MathOp c op (map (upd_lvp k fp fi) args) outType"
| "upd_lvp k fp fi (GetItem c arg typeName idx) =
     GetItem c (upd_lvp k fp fi arg) typeName (upd_lvp k fp fi idx)"
| "upd_lvp k fp fi (Construct c typeName args) = Construct c typeName (map (upd_lvp k fp fi) args)"
| "upd_lvp k fp fi (CallMethod c nm args retType) = CallMethod c nm (map (upd_lvp k fp fi) args) retType"
| "upd_lvp k fp fi (CallMemberMethod c this nm args retType) =
     CallMemberMethod c (upd_lvp k fp fi this) nm (map (upd_lvp k fp fi) args) retType"
| "upd_lvp k fp fi (GetDataMember c this nm) = GetDataMember c (upd_lvp k fp fi this) nm"
| "upd_lvp k fp fi (ExtVar c typeName nm) = ExtVar c typeName nm"
| "upd_lvp k fp fi (DefinedVar c typeName defn hint) = DefinedVar c typeName defn hint"
| "upd_lvp k fp fi (InitList c typeName elms) = InitList c typeName (map (upd_lvp k fp fi) elms)"
| "upd_lvp k fp fi (LocalVariablePlaceholder c typeHint parent i) =
     (if oid c = k
      then LocalVariablePlaceholder c typeHint (fp (map_option (upd_lvp k fp fi) parent)) (fi i)
      else LocalVariablePlaceholder c typeHint (map_option (upd_lvp k fp fi) parent) i)"
| "upd_lvp k fp fi (Select c rng predExpr idx) =
     Select c (upd_rng k fp fi rng) (upd_lvp k fp fi predExpr) (upd_lvp k fp fi idx)"
| "upd_lvp k fp fi (Sort c rng funExpr idx) =
     Sort c (upd_rng k fp fi rng) (upd_lvp k fp fi funExpr) (upd_lvp k fp fi idx)"
| "upd_lvp k fp fi (Map c rng funExpr idx typeName) =
     Map c (upd_rng k fp fi rng) (upd_lvp k fp fi funExpr) (upd_lvp k fp fi idx) typeName"
| "upd_lvp k fp fi (Next c rng predExpr idx) =
     Next c (upd_rng k fp fi rng) (upd_lvp k fp fi predExpr) (upd_lvp k fp fi idx)"
| "upd_lvp k fp fi (Reduce n rng resultType start accuExpr idx prevRes) =
     Reduce n (upd_rng k fp fi rng) resultType (upd_lvp k fp fi start) (upd_lvp k fp fi accuExpr)
       (upd_lvp k fp fi idx) (upd_lvp k fp fi prevRes)"
| "upd_lvp k fp fi (Combine c ranges candPredExpr idxs) =
     Combine c (map (upd_rng k fp fi) ranges) (upd_lvp k fp fi candPredExpr) (map (upd_lvp k fp fi) idxs)"
| "upd_lvp k fp fi (ForwardingOp c wrapped) = ForwardingOp c (upd_lvp k fp fi wrapped)"
| "upd_lvp k fp fi (ScaleFactorWithSystOp c wrapped systName variations) =
     ScaleFactorWithSystOp c (upd_lvp k fp fi wrapped) systName variations"
| "upd_lvp k fp fi (SystModifiedCollectionOp c wrapped systName variations) =
     SystModifiedCollectionOp c (upd_lvp k fp fi wrapped) systName variations"
| "upd_rng k fp fi (RangeProxy op base idxs) = RangeProxy (upd_lvp k fp fi op) base (upd_lvp k fp fi idxs)"

text \<open>\<^verbatim>\<open>obj.i = n\<close> and \<^verbatim>\<open>obj._parent = res\<close> for the placeholder with identity \<open>k\<close>.\<close>

definition set_index :: "nat \<Rightarrow> int \<Rightarrow> tupleop \<Rightarrow> tupleop" where
  "set_index k n t = upd_lvp k (\<lambda>p. p) (\<lambda>i. Some n) t"

definition set_parent :: "nat \<Rightarrow> tupleop \<Rightarrow> tupleop \<Rightarrow> tupleop" where
  "set_parent k res t = upd_lvp k (\<lambda>p. Some res) (\<lambda>i. i) t"

text \<open>\<^verbatim>\<open>lambda nd : isinstance(nd, LocalVariablePlaceholder)\<close>.\<close>

fun isLVP :: "pyobj \<Rightarrow> bool" where
  "isLVP (Op (LocalVariablePlaceholder c typeHint parent i)) = True"
| "isLVP x = False"

text \<open>\<^verbatim>\<open>nd.i if nd.i is not None else -1\<close>; \<open>None\<close> and the other classes have no \<^verbatim>\<open>i\<close>.\<close>

fun lvp_index :: "pyobj \<Rightarrow> pyerror + int" where
  "lvp_index (Op (LocalVariablePlaceholder c typeHint parent i)) =
     Inr (case i of None \<Rightarrow> - 1 | Some n \<Rightarrow> n)"
| "lvp_index x = Inl AttributeError"

text \<open>
  \<^verbatim>\<open>max(chain([-1], (... for nd in collectNodes(expr, select=isinstance LocalVariablePlaceholder))))\<close>.
\<close>

definition maxLVIdx ::
  "(rngproxy \<Rightarrow> pyerror + pyobj list) \<Rightarrow> (string \<Rightarrow> int) \<Rightarrow> tupleop \<Rightarrow> pyerror + int" where
  "maxLVIdx pd H expr =
     (case collectNodes pd H isLVP expr of Inl e \<Rightarrow> Inl e
      | Inr nodes \<Rightarrow> (case seq_results (map lvp_index nodes) of Inl e \<Rightarrow> Inl e
          | Inr ns \<Rightarrow> Inr (fold max ns (- 1))))"

text \<open>
  The \<^verbatim>\<open>fromRngFun\<close> factories. The user's callable receives the element of the range at the
  new placeholder, \<^verbatim>\<open>rng._base[idx.result]\<close>, and builds the body from it: it is a function of
  the placeholder node that returns the body node (after \<^verbatim>\<open>adaptArg\<close>) or raises. \<open>iid\<close> and
  \<open>rid\<close> are the identities of the two objects that the factory creates.
\<close>

definition new_placeholder :: "nat \<Rightarrow> string \<Rightarrow> int option \<Rightarrow> tupleop" where
  "new_placeholder k typeHint i = LocalVariablePlaceholder (new_obj k) typeHint None i"

definition Select_fromRngFun ::
  "(rngproxy \<Rightarrow> pyerror + pyobj list) \<Rightarrow> (string \<Rightarrow> int) \<Rightarrow> nat \<Rightarrow> nat \<Rightarrow> rngproxy
     \<Rightarrow> (tupleop \<Rightarrow> pyerror + tupleop) \<Rightarrow> pyerror + tupleop" where
  "Select_fromRngFun pd H iid rid rng pred =
     (let idx = new_placeholder iid SizeType None in
      case pred idx of Inl e \<Rightarrow> Inl e
      | Inr predExpr \<Rightarrow>
          (case maxLVIdx pd H predExpr of Inl e \<Rightarrow> Inl e
           | Inr m \<Rightarrow>
               (let res = set_index iid (m + 1) (Select (new_obj rid) rng predExpr idx)
                in Inr (set_parent iid res res))))"

definition Sort_fromRngFun ::
  "(rngproxy \<Rightarrow> pyerror + pyobj list) \<Rightarrow> (string \<Rightarrow> int) \<Rightarrow> nat \<Rightarrow> nat \<Rightarrow> rngproxy
     \<Rightarrow> (tupleop \<Rightarrow> pyerror + tupleop) \<Rightarrow> pyerror + tupleop" where
  "Sort_fromRngFun pd H iid rid rng f =
     (let idx = new_placeholder iid SizeType None in
      case f idx of Inl e \<Rightarrow> Inl e
      | Inr funExpr \<Rightarrow>
          (case maxLVIdx pd H funExpr of Inl e \<Rightarrow> Inl e
           | Inr m \<Rightarrow>
               (let res = set_index iid (m + 1) (Sort (new_obj rid) rng funExpr idx)
                in Inr (set_parent iid res res))))"

text \<open>
  For \<^verbatim>\<open>Map\<close> the callable's result also has a type name (\<^verbatim>\<open>val._typeName\<close>), used when no
  \<^verbatim>\<open>typeName\<close> is given.
\<close>

definition Map_fromRngFun ::
  "(rngproxy \<Rightarrow> pyerror + pyobj list) \<Rightarrow> (string \<Rightarrow> int) \<Rightarrow> nat \<Rightarrow> nat \<Rightarrow> rngproxy
     \<Rightarrow> (tupleop \<Rightarrow> pyerror + tupleop \<times> string) \<Rightarrow> string option \<Rightarrow> pyerror + tupleop" where
  "Map_fromRngFun pd H iid rid rng f typeName =
     (let idx = new_placeholder iid SizeType None in
      case f idx of Inl e \<Rightarrow> Inl e
      | Inr (funExpr, valType) \<Rightarrow>
          (case maxLVIdx pd H funExpr of Inl e \<Rightarrow> Inl e
           | Inr m \<Rightarrow>
               (let res = set_index iid (m + 1)
                            (Map (new_obj rid) rng funExpr idx
                               (case typeName of None \<Rightarrow> valType | Some tn \<Rightarrow> tn))
                in Inr (set_parent iid res res))))"

definition Next_fromRngFun ::
  "(rngproxy \<Rightarrow> pyerror + pyobj list) \<Rightarrow> (string \<Rightarrow> int) \<Rightarrow> nat \<Rightarrow> nat \<Rightarrow> rngproxy
     \<Rightarrow> (tupleop \<Rightarrow> pyerror + tupleop) \<Rightarrow> pyerror + tupleop" where
  "Next_fromRngFun pd H iid rid rng pred =
     (let idx = new_placeholder iid SizeType None in
      case pred idx of Inl e \<Rightarrow> Inl e
      | Inr predExpr \<Rightarrow>
          (case maxLVIdx pd H predExpr of Inl e \<Rightarrow> Inl e
           | Inr m \<Rightarrow>
               (let res = set_index iid (m + 1) (Next (new_obj rid) rng predExpr idx)
                in Inr (set_parent iid res res))))"

text \<open>
  \<^verbatim>\<open>Reduce.fromRngFun\<close>: \<open>start\<close> is the start node (\<^verbatim>\<open>adaptArg(start)\<close>) with its type name;
  \<open>pid\<close> is the identity of the second placeholder, for the previous result.
\<close>

definition Reduce_fromRngFun ::
  "(rngproxy \<Rightarrow> pyerror + pyobj list) \<Rightarrow> (string \<Rightarrow> int) \<Rightarrow> nat \<Rightarrow> nat \<Rightarrow> nat \<Rightarrow> rngproxy
     \<Rightarrow> tupleop \<times> string \<Rightarrow> (tupleop \<Rightarrow> tupleop \<Rightarrow> pyerror + tupleop) \<Rightarrow> pyerror + tupleop" where
  "Reduce_fromRngFun pd H iid pid rid rng start accuFun =
     (let resultType = snd start;
          idx = new_placeholder iid SizeType None;
          prevRes = new_placeholder pid resultType (Some (- 1)) in
      case accuFun prevRes idx of Inl e \<Rightarrow> Inl e
      | Inr accuExpr \<Rightarrow>
          (case maxLVIdx pd H accuExpr of Inl e \<Rightarrow> Inl e
           | Inr m \<Rightarrow>
               (let res = set_index pid (m + 2) (set_index iid (m + 1)
                            (Reduce rid rng resultType (fst start) accuExpr idx prevRes));
                    res' = set_parent iid res res
                in Inr (set_parent pid res' res'))))"

text \<open>
  Modelled from the spec: \<^verbatim>\<open>treefunctions.AND\<close> and the comparison of two proxies (modules
  treefunctions and treeproxies) are not among the sources. The conjunction is the \<open>and\<close>
  operation over its arguments; the default \<^verbatim>\<open>sameIdxPred\<close>, \<^verbatim>\<open>i1 < i2\<close>, is the \<open>lt\<close> operation
  on the two placeholders (strictly increasing placeholder order).
\<close>

definition op_AND :: "nat \<Rightarrow> tupleop list \<Rightarrow> tupleop" where
  "op_AND k args = MathOp (new_obj k) ''and'' args ''Bool_t''"

definition op_lt :: "nat \<Rightarrow> tupleop \<Rightarrow> tupleop \<Rightarrow> tupleop" where
  "op_lt k a b = MathOp (new_obj k) ''lt'' [a, b] ''Bool_t''"

text \<open>\<^verbatim>\<open>itertools.combinations(xs, 2)\<close>.\<close>

fun combinations2 :: "'a list \<Rightarrow> ('a \<times> 'a) list" where
  "combinations2 [] = []"
| "combinations2 (x # xs) = map (Pair x) xs @ combinations2 xs"

text \<open>The loop \<^verbatim>\<open>for i, ilvp in enumerate(idx): ilvp.i = maxLVIdx+1+i\<close>, from position \<open>j\<close>.\<close>

fun set_indices :: "nat \<Rightarrow> int \<Rightarrow> nat \<Rightarrow> nat \<Rightarrow> tupleop \<Rightarrow> tupleop" where
  "set_indices nid m j 0 t = t"
| "set_indices nid m j (Suc n) t = set_indices nid m (Suc j) n (set_index (nid + j) (m + 1 + int j) t)"

text \<open>The loop \<^verbatim>\<open>for ilvp in idx: ilvp._parent = res\<close>, from position \<open>j\<close>.\<close>

fun set_parents :: "nat \<Rightarrow> nat \<Rightarrow> nat \<Rightarrow> tupleop \<Rightarrow> tupleop" where
  "set_parents nid j 0 t = t"
| "set_parents nid j (Suc n) t = set_parents nid (Suc j) n (set_parent (nid + j) t t)"

text \<open>
  \<^verbatim>\<open>Combine.fromRngFun\<close>. The \<open>num\<close> placeholders get the identities \<open>nid, nid + 1, ...\<close>;
  \<^verbatim>\<open>sameIdxPred\<close> is given the identity of the node it builds for a pair; the two conjunctions
  and the result take the next identities.
\<close>

definition same_base_pairs :: "(tupleop \<times> rngproxy) list \<Rightarrow> (tupleop \<times> tupleop) list" where
  "same_base_pairs xs =
     map (\<lambda>((ia, ra), (ib, rb)). (ia, ib))
       (filter (\<lambda>((ia, ra), (ib, rb)). rng_base ra = rng_base rb) (combinations2 xs))"

definition Combine_fromRngFun ::
  "(rngproxy \<Rightarrow> pyerror + pyobj list) \<Rightarrow> (string \<Rightarrow> int) \<Rightarrow> nat \<Rightarrow> nat \<Rightarrow> rngproxy list
     \<Rightarrow> (tupleop list \<Rightarrow> pyerror + tupleop) \<Rightarrow> (nat \<Rightarrow> tupleop \<Rightarrow> tupleop \<Rightarrow> tupleop)
     \<Rightarrow> pyerror + tupleop" where
  "Combine_fromRngFun pd H nid num ranges candPredFun sameIdxPred =
     (if ranges = [] then Inl IndexError
      else let ranges' = (if length ranges > 1 then ranges else replicate num (hd ranges));
               idx = map (\<lambda>i. new_placeholder (nid + i) SizeType (Some (- 1 - int i))) [0..<num];
               pairs = same_base_pairs (zip idx ranges');
               diffs = map (\<lambda>(j, (ia, ib)). sameIdxPred (nid + num + j) ia ib) (enumerate 0 pairs);
               areDiff = op_AND (nid + num + length pairs) diffs
           in case candPredFun (take (length ranges') idx) of Inl e \<Rightarrow> Inl e
              | Inr candPred \<Rightarrow>
                  (let candPredExpr = (if length diffs > 0
                                       then op_AND (nid + num + length pairs + 1) [areDiff, candPred]
                                       else candPred)
                   in case maxLVIdx pd H candPredExpr of Inl e \<Rightarrow> Inl e
                      | Inr m \<Rightarrow>
                          (let res = set_indices nid m 0 num
                                       (Combine (new_obj (nid + num + length pairs + 2)) ranges'
                                          candPredExpr idx)
                           in Inr (set_parents nid 0 num res))))"

text \<open>The placeholder(s) and the body of a higher-order node.\<close>

fun placeholders_of :: "tupleop \<Rightarrow> tupleop list" where
  "placeholders_of (Select c rng predExpr idx) = [idx]"
| "placeholders_of (Sort c rng funExpr idx) = [idx]"
| "placeholders_of (Map c rng funExpr idx typeName) = [idx]"
| "placeholders_of (Next c rng predExpr idx) = [idx]"
| "placeholders_of (Reduce n rng resultType start accuExpr idx prevRes) = [idx, prevRes]"
| "placeholders_of (Combine c ranges candPredExpr idxs) = idxs"
| "placeholders_of t = []"

fun body_of :: "tupleop \<Rightarrow> tupleop option" where
  "body_of (Select c rng predExpr idx) = Some predExpr"
| "body_of (Sort c rng funExpr idx) = Some funExpr"
| "body_of (Map c rng funExpr idx typeName) = Some funExpr"
| "body_of (Next c rng predExpr idx) = Some predExpr"
| "body_of (Reduce n rng resultType start accuExpr idx prevRes) = Some accuExpr"
| "body_of (Combine c ranges candPredExpr idxs) = Some candPredExpr"
| "body_of t = None"

text \<open>The index field \<^verbatim>\<open>i\<close> of a placeholder.\<close>

fun index_of :: "tupleop \<Rightarrow> int option" where
  "index_of (LocalVariablePlaceholder c typeHint parent i) = i"
| "index_of t = None"

text \<open>
  The state after \<^verbatim>\<open>get_cppStr\<close> has been evaluated under the default resolver: no
  \<^verbatim>\<open>get_cppStr\<close> method, and nothing in \<^verbatim>\<open>CppStrRedir\<close>, reads or writes \<^verbatim>\<open>_cache\<close>, so the
  graph is as it was.
\<close>

definition observe_cppStr :: "tupleop \<Rightarrow> tupleop" where
  "observe_cppStr t = t"

text \<open>A variation wrapper around a constant, which has no \<^verbatim>\<open>args\<close>.\<close>

definition ex_sf_const :: tupleop where
  "ex_sf_const = ScaleFactorWithSystOp (new_obj 1) (Const (new_obj 0) ''Float_t'' (PyFloat (Finite 1)))
     ''x'' [''xup'', ''xdown'']"

section \<open>Example graphs\<close>

text \<open>
  A collection \<open>nm\<close> with its size column \<^verbatim>\<open>n<nm>\<close>, its array column \<^verbatim>\<open><nm>_pt\<close> and its
  index range, as a range proxy; the objects get the identities \<open>k, k + 1, k + 2\<close>.
\<close>

definition collection :: "string \<Rightarrow> nat \<Rightarrow> rngproxy" where
  "collection nm k = RangeProxy
     (GetArrayColumn (new_obj (k + 1)) ''Float_t'' (nm @ ''_pt'')
        (GetColumn (new_obj k) ''UInt_t'' (''n'' @ nm)))
     nm
     (Construct (new_obj (k + 2)) ''rdfhelpers::IndexRange<std::size_t>''
        [GetColumn (new_obj k) ''UInt_t'' (''n'' @ nm)])"

text \<open>A range proxy whose \<^verbatim>\<open>deps\<close> yields nothing.\<close>

definition no_proxy_deps :: "rngproxy \<Rightarrow> pyerror + pyobj list" where
  "no_proxy_deps r = Inr []"

text \<open>\<^verbatim>\<open>deps()\<close> with its defaults: \<^verbatim>\<open>select=(lambda x : True), includeLocal=False\<close>.\<close>

definition select_all :: walk where
  "select_all = \<lparr>colName = (\<lambda>t. None), proxyDeps = no_proxy_deps, strHash = hash0,
      select = (\<lambda>x. True), includeLocal = False\<rparr>"

definition true_pred :: "nat \<Rightarrow> tupleop" where
  "true_pred k = Const (new_obj k) ''bool'' (PyStr ''true'')"

text \<open>\<^verbatim>\<open>Combine.fromRngFun(2, (jets, jets), lambda j1, j2 : true)\<close>.\<close>

definition ex_combine :: "pyerror + tupleop" where
  "ex_combine = Combine_fromRngFun no_proxy_deps hash0 10 2 [collection ''Jet'' 0, collection ''Jet'' 0]
      (\<lambda>xs. Inr (true_pred 20)) op_lt"

text \<open>
  \<^verbatim>\<open>Map.fromRngFun(jets, lambda j : Select.fromRngFun(muons, lambda m : j.pt > 30.))\<close>: the
  predicate of the nested selection reads the element of the outer range only.
\<close>

definition ex_inner :: "tupleop \<Rightarrow> pyerror + tupleop" where
  "ex_inner jet = Select_fromRngFun no_proxy_deps hash0 40 41 (collection ''Muon'' 3)
     (\<lambda>mu. Inr (MathOp (new_obj 39) ''gt''
        [GetItem (new_obj 38) (rng_op (collection ''Jet'' 0)) ''Float_t'' jet,
         Const (new_obj 37) ''Double_t'' (PyFloat (Finite 30))] ''Bool_t''))"

definition ex_map :: "pyerror + tupleop" where
  "ex_map = Map_fromRngFun no_proxy_deps hash0 50 51 (collection ''Jet'' 0)
     (\<lambda>jet. case ex_inner jet of Inl e \<Rightarrow> Inl e
             | Inr s \<Rightarrow> Inr (s, ''ROOT::VecOps::RVec<std::size_t>'')) None"

text \<open>
  The late assignments that \<^verbatim>\<open>Combine.fromRngFun\<close> makes to its two placeholders: their
  indices \<open>m + 1\<close> and \<open>m + 2\<close>, then their back-references.
\<close>

definition late2 :: "nat \<Rightarrow> int \<Rightarrow> tupleop \<Rightarrow> tupleop \<Rightarrow> tupleop \<Rightarrow> tupleop" where
  "late2 nid m p0 p1 t =
     set_parent (Suc nid) p1 (set_parent nid p0 (set_index (Suc nid) (m + 2) (set_index nid (m + 1) t)))"

text \<open>\<^verbatim>\<open>Combine.fromRngFun(2, (jets, muons), lambda j, m : j.pt > m.pt)\<close>.\<close>

definition ex_combine_jm :: "pyerror + tupleop" where
  "ex_combine_jm = Combine_fromRngFun no_proxy_deps hash0 10 2 [collection ''Jet'' 0, collection ''Muon'' 3]
      (\<lambda>xs. Inr (MathOp (new_obj 22) ''gt''
         (map (\<lambda>(r, x). GetItem (new_obj (20 + py_id x)) (rng_op r) ''Float_t'' x)
            (zip [collection ''Jet'' 0, collection ''Muon'' 3] xs)) ''Bool_t'')) op_lt"

section \<open>Capture lists\<close>

text \<open>
  What \<^verbatim>\<open>_convertFunArgs\<close> asks of the resolver: \<^verbatim>\<open>shouldDefine\<close> and \<^verbatim>\<open>_getColName\<close>. The type
  name of the result proxy of a hoisted node, \<^verbatim>\<open>ld.result._typeName\<close>, comes from the proxy
  classes, which are not among the sources: it is a parameter too.
\<close>

record resolver =
  shouldDefine :: "tupleop \<Rightarrow> bool"
  getColName :: "tupleop \<Rightarrow> string option"
  resultTypeName :: "tupleop \<Rightarrow> string"

text \<open>
  A (capture, declaration, call) triple. The call name of a hoisted node is the column name that
  the resolver returned, which may be \<open>None\<close>.
\<close>

record triple =
  capture :: string
  decl :: string
  call :: "string option"

text \<open>\<^verbatim>\<open>"{0}".format(nm)\<close> of a column name that may be \<open>None\<close>.\<close>

definition fmt_opt :: "string option \<Rightarrow> string" where
  "fmt_opt nm = (case nm of None \<Rightarrow> ''None'' | Some s \<Rightarrow> s)"

text \<open>
  One iteration of the loop of \<^verbatim>\<open>_convertFunArgs\<close> on the list \<^verbatim>\<open>capDeclCall\<close>. The tests are
  made in the order of the source: array column, column, placeholder, hoisted node.
\<close>

fun convert_step :: "resolver \<Rightarrow> tupleop \<Rightarrow> triple list \<Rightarrow> pyerror + triple list" where
  "convert_step dc (GetArrayColumn c typeName nm len) acc =
     Inr (acc @ [\<lparr>capture = ''&'' @ nm,
                  decl = ''const ROOT::VecOps::RVec<'' @ typeName @ ''>& '' @ nm,
                  call = Some nm\<rparr>])"
| "convert_step dc (GetColumn c typeName nm) acc =
     Inr (acc @ [\<lparr>capture = ''&'' @ nm, decl = ''const '' @ typeName @ ''& '' @ nm, call = Some nm\<rparr>])"
| "convert_step dc (LocalVariablePlaceholder c typeHint parent i) acc =
     (case name i of Inl e \<Rightarrow> Inl e
      | Inr n \<Rightarrow> Inr (acc @ [\<lparr>capture = n, decl = typeHint @ '' '' @ n, call = Some n\<rparr>]))"
| "convert_step dc ld acc =
     (if shouldDefine dc ld
      then (let nm = getColName dc ld in
            if \<not> list_ex (\<lambda>t. ''&'' @ fmt_opt nm = capture t) acc
            then Inr (acc @ [\<lparr>capture = ''&'' @ fmt_opt nm,
                              decl = ''const '' @ resultTypeName dc ld @ ''& '' @ fmt_opt nm,
                              call = nm\<rparr>])
            else Inr acc)
      else Inl AssertionError)"

fun convert_loop :: "resolver \<Rightarrow> tupleop list \<Rightarrow> triple list \<Rightarrow> pyerror + triple list" where
  "convert_loop dc [] acc = Inr acc"
| "convert_loop dc (ld # lds) acc =
     (case convert_step dc ld acc of Inl e \<Rightarrow> Inl e | Inr acc' \<Rightarrow> convert_loop dc lds acc')"

text \<open>
  \<^verbatim>\<open>_convertFunArgs\<close>: the triples, sorted by declaration (\<^verbatim>\<open>sorted\<close> is stable; strings are
  ordered lexicographically by character code). \<open>lds\<close> is the collected set in the order in
  which it is iterated. The three lists that \<^verbatim>\<open>zip(*...)\<close> makes of the result are its columns.
\<close>

definition convertFunArgs :: "resolver \<Rightarrow> tupleop list \<Rightarrow> pyerror + triple list" where
  "convertFunArgs dc lds =
     (case convert_loop dc lds [] of Inl e \<Rightarrow> Inl e | Inr ts \<Rightarrow> Inr (sort_key decl ts))"


definition paramDecl :: "triple list \<Rightarrow> string list" where
  "paramDecl ts = map decl ts"

definition paramCall :: "triple list \<Rightarrow> string option list" where
  "paramCall ts = map call ts"

text \<open>The triple that the loop makes of one dependency, before the test for duplicates.\<close>

definition triple_of :: "resolver \<Rightarrow> tupleop \<Rightarrow> pyerror + triple" where
  "triple_of dc ld = (case convert_step dc ld [] of Inl e \<Rightarrow> Inl e | Inr ts \<Rightarrow> Inr (last ts))"

definition triples :: "resolver \<Rightarrow> tupleop list \<Rightarrow> pyerror + triple list" where
  "triples dc lds = seq_results (map (triple_of dc) lds)"








text \<open>The ranges that \<^verbatim>\<open>Combine.fromRngFun\<close> uses: a single range stands for \<open>num\<close> copies.\<close>

definition used_ranges :: "nat \<Rightarrow> rngproxy list \<Rightarrow> rngproxy list" where
  "used_ranges num ranges = (if length ranges > 1 then ranges else replicate num (hd ranges))"

text \<open>The placeholders as \<^verbatim>\<open>Combine.fromRngFun\<close> creates them, with the indices \<open>-1, -2, ...\<close>.\<close>

definition provisional :: "nat \<Rightarrow> nat \<Rightarrow> tupleop list" where
  "provisional nid num = map (\<lambda>i. new_placeholder (nid + i) SizeType (Some (- 1 - int i))) [0..<num]"

text \<open>
  What the loop \<^verbatim>\<open>for ilvp in idx: ilvp._parent = res\<close> makes of a node \<open>t\<close> inside the result
  \<open>whole\<close>.
\<close>

fun set_parents_in :: "nat \<Rightarrow> nat \<Rightarrow> nat \<Rightarrow> tupleop \<Rightarrow> tupleop \<Rightarrow> tupleop" where
  "set_parents_in nid j 0 whole t = t"
| "set_parents_in nid j (Suc n) whole t =
     set_parents_in nid (Suc j) n (set_parent (nid + j) whole whole) (set_parent (nid + j) whole t)"

text \<open>
  The late assignments of \<^verbatim>\<open>Combine.fromRngFun\<close> as a node inside the result sees them: the
  indices \<open>m + 1, m + 2, ...\<close> of the \<open>num\<close> placeholders, then their back-references.
\<close>

definition late_all :: "nat \<Rightarrow> nat \<Rightarrow> int \<Rightarrow> tupleop \<Rightarrow> tupleop \<Rightarrow> tupleop" where
  "late_all nid num m whole t = set_parents_in nid 0 num whole (set_indices nid m 0 num t)"

text \<open>The identity of a placeholder.\<close>

fun lvp_id :: "tupleop \<Rightarrow> nat option" where
  "lvp_id (LocalVariablePlaceholder c typeHint parent i) = Some (oid c)"
| "lvp_id t = None"

text \<open>
  The distinctness predicates that \<^verbatim>\<open>Combine.fromRngFun\<close> builds, and the candidate predicate it
  makes of them and of the user's predicate \<open>cand\<close>, before the late assignments.
\<close>

definition combine_diffs ::
  "nat \<Rightarrow> nat \<Rightarrow> rngproxy list \<Rightarrow> (nat \<Rightarrow> tupleop \<Rightarrow> tupleop \<Rightarrow> tupleop) \<Rightarrow> tupleop list" where
  "combine_diffs nid num ranges sameIdxPred =
     map (\<lambda>(j, (ia, ib)). sameIdxPred (nid + num + j) ia ib)
       (enumerate 0 (same_base_pairs (zip (provisional nid num) (used_ranges num ranges))))"

definition combine_body ::
  "nat \<Rightarrow> nat \<Rightarrow> rngproxy list \<Rightarrow> (nat \<Rightarrow> tupleop \<Rightarrow> tupleop \<Rightarrow> tupleop) \<Rightarrow> tupleop \<Rightarrow> tupleop" where
  "combine_body nid num ranges sameIdxPred cand =
     (let diffs = combine_diffs nid num ranges sameIdxPred
      in if length diffs > 0
         then op_AND (nid + num + length diffs + 1) [op_AND (nid + num + length diffs) diffs, cand]
         else cand)"

text \<open>\<^verbatim>\<open>Combine.fromRngFun(3, (jets, muons, jets), lambda j1, m, j2 : true)\<close>.\<close>

definition ex_combine3 :: "pyerror + tupleop" where
  "ex_combine3 = Combine_fromRngFun no_proxy_deps hash0 10 3
      [collection ''Jet'' 0, collection ''Muon'' 3, collection ''Jet'' 0]
      (\<lambda>xs. Inr (true_pred 30)) op_lt"

section \<open>Cloning\<close>

text \<open>
  The state that a clone threads: the dictionary \<^verbatim>\<open>memo\<close>, from the identity of an original to
  its copy, and the identity that the next new object gets. A step returns its value and the
  new state, or raises.
\<close>

type_synonym cstate = "(nat \<times> tupleop) list \<times> nat"

definition ret :: "'a \<Rightarrow> cstate \<Rightarrow> pyerror + 'a \<times> cstate" where
  "ret x st = Inr (x, st)"

definition bind_cl ::
  "(cstate \<Rightarrow> pyerror + 'a \<times> cstate) \<Rightarrow> ('a \<Rightarrow> cstate \<Rightarrow> pyerror + 'b \<times> cstate)
     \<Rightarrow> cstate \<Rightarrow> pyerror + 'b \<times> cstate" where
  "bind_cl m f st = (case m st of Inl e \<Rightarrow> Inl e | Inr (x, st') \<Rightarrow> f x st')"

text \<open>The construction of a new object: it takes the next identity.\<close>

definition alloc :: "(nat \<Rightarrow> 'a) \<Rightarrow> cstate \<Rightarrow> pyerror + 'a \<times> cstate" where
  "alloc f st = Inr (f (snd st), (fst st, Suc (snd st)))"

definition raise :: "pyerror \<Rightarrow> cstate \<Rightarrow> pyerror + 'a \<times> cstate" where
  "raise e st = Inl e"

text \<open>\<^verbatim>\<open>memo[id(self)] = cp\<close>.\<close>

definition remember :: "nat \<Rightarrow> tupleop \<Rightarrow> cstate \<Rightarrow> pyerror + tupleop \<times> cstate" where
  "remember k cp st = Inr (cp, ((k, cp) # fst st, snd st))"

text \<open>
  \<^verbatim>\<open>ScaleFactorWithSystOp.__init__\<close>: an empty or missing list of variations is replaced by the
  up and down variations of the systematic.
\<close>

definition default_variations :: "string \<Rightarrow> string list \<Rightarrow> string list" where
  "default_variations systName variations =
     (if variations = [] then [systName @ ''up'', systName @ ''down''] else variations)"

text \<open>
  \<^verbatim>\<open>TupleOp.clone\<close> (\<open>clone\<close>) and the \<^verbatim>\<open>_clone\<close> of each class (\<open>clone_impl\<close>). The children
  are cloned in the order of the arguments of the constructor call, then the new object is
  made, with an empty cache (\<^verbatim>\<open>TupleOp.__init__\<close>); a new \<open>Reduce\<close> has no cache at all. The
  copy of a placeholder keeps the parent of the original. \<open>rt\<close> stands for
  \<^verbatim>\<open>CallMethod._initReturnType\<close>, which asks ROOT for the return type when \<^verbatim>\<open>returnType\<close> is
  empty; \<^verbatim>\<open>CallMemberMethod.__init__\<close> then reads \<^verbatim>\<open>this._typ\<close>, which a node does not have.

  Modelled from the spec: the clone of a range proxy (module treeproxies, not among the
  sources) is the proxy of the clones of its nodes, over the same collection.
\<close>

fun clone :: "(string \<Rightarrow> string) \<Rightarrow> tupleop \<Rightarrow> cstate \<Rightarrow> pyerror + tupleop \<times> cstate"
  and clone_impl :: "(string \<Rightarrow> string) \<Rightarrow> tupleop \<Rightarrow> cstate \<Rightarrow> pyerror + tupleop \<times> cstate"
  and clone_list :: "(string \<Rightarrow> string) \<Rightarrow> tupleop list \<Rightarrow> cstate \<Rightarrow> pyerror + tupleop list \<times> cstate"
  and clone_rng :: "(string \<Rightarrow> string) \<Rightarrow> rngproxy \<Rightarrow> cstate \<Rightarrow> pyerror + rngproxy \<times> cstate"
  and clone_rngs :: "(string \<Rightarrow> string) \<Rightarrow> rngproxy list \<Rightarrow> cstate \<Rightarrow> pyerror + rngproxy list \<times> cstate" where
  "clone rt t =
     (\<lambda>st. case map_of (fst st) (py_id t) of
        Some cp \<Rightarrow> Inr (cp, st)
      | None \<Rightarrow> bind_cl (clone_impl rt t) (remember (py_id t)) st)"
| "clone_impl rt (Const c typeName v) = alloc (\<lambda>k. Const (new_obj k) typeName v)"
| "clone_impl rt (GetColumn c typeName nm) = alloc (\<lambda>k. GetColumn (new_obj k) typeName nm)"
| "clone_impl rt (GetArrayColumn c typeName nm len) =
     bind_cl (clone rt len) (\<lambda>len'. alloc (\<lambda>k. GetArrayColumn (new_obj k) typeName nm len'))"
| "clone_impl rt (MathOp c op args outType) =
     bind_cl (clone_list rt args) (\<lambda>args'. alloc (\<lambda>k. MathOp (new_obj k) op args' outType))"
| "clone_impl rt (GetItem c arg typeName idx) =
     bind_cl (clone rt arg) (\<lambda>arg'. bind_cl (clone rt idx) (\<lambda>idx'.
       alloc (\<lambda>k. GetItem (new_obj k) arg' typeName idx')))"
| "clone_impl rt (Construct c typeName args) =
     bind_cl (clone_list rt args) (\<lambda>args'. alloc (\<lambda>k. Construct (new_obj k) typeName args'))"
| "clone_impl rt (CallMethod c nm args retType) =
     bind_cl (clone_list rt args) (\<lambda>args'.
       alloc (\<lambda>k. CallMethod (new_obj k) nm args' (if retType = [] then rt nm else retType)))"
| "clone_impl rt (CallMemberMethod c this nm args retType) =
     bind_cl (clone rt this) (\<lambda>this'. bind_cl (clone_list rt args) (\<lambda>args'.
       if retType = [] then raise AttributeError
       else alloc (\<lambda>k. CallMemberMethod (new_obj k) this' nm args' retType)))"
| "clone_impl rt (GetDataMember c this nm) =
     bind_cl (clone rt this) (\<lambda>this'. alloc (\<lambda>k. GetDataMember (new_obj k) this' nm))"
| "clone_impl rt (ExtVar c typeName nm) = alloc (\<lambda>k. ExtVar (new_obj k) typeName nm)"
| "clone_impl rt (DefinedVar c typeName defn hint) =
     alloc (\<lambda>k. DefinedVar (new_obj k) typeName defn hint)"
| "clone_impl rt (InitList c typeName elms) =
     bind_cl (clone_list rt elms) (\<lambda>elms'. alloc (\<lambda>k. InitList (new_obj k) typeName elms'))"
| "clone_impl rt (LocalVariablePlaceholder c typeHint parent i) =
     alloc (\<lambda>k. LocalVariablePlaceholder (new_obj k) typeHint parent i)"
| "clone_impl rt (Select c rng predExpr idx) =
     bind_cl (clone_rng rt rng) (\<lambda>rng'. bind_cl (clone rt predExpr) (\<lambda>predExpr'.
       bind_cl (clone rt idx) (\<lambda>idx'. alloc (\<lambda>k. Select (new_obj k) rng' predExpr' idx'))))"
| "clone_impl rt (Sort c rng funExpr idx) =
     bind_cl (clone_rng rt rng) (\<lambda>rng'. bind_cl (clone rt funExpr) (\<lambda>funExpr'.
       bind_cl (clone rt idx) (\<lambda>idx'. alloc (\<lambda>k. Sort (new_obj k) rng' funExpr' idx'))))"
| "clone_impl rt (Map c rng funExpr idx typeName) =
     bind_cl (clone_rng rt rng) (\<lambda>rng'. bind_cl (clone rt funExpr) (\<lambda>funExpr'.
       bind_cl (clone rt idx) (\<lambda>idx'. alloc (\<lambda>k. Map (new_obj k) rng' funExpr' idx' typeName))))"
| "clone_impl rt (Next c rng predExpr idx) =
     bind_cl (clone_rng rt rng) (\<lambda>rng'. bind_cl (clone rt predExpr) (\<lambda>predExpr'.
       bind_cl (clone rt idx) (\<lambda>idx'. alloc (\<lambda>k. Next (new_obj k) rng' predExpr' idx'))))"
| "clone_impl rt (Reduce n rng resultType start accuExpr idx prevRes) =
     bind_cl (clone_rng rt rng) (\<lambda>rng'. bind_cl (clone rt start) (\<lambda>start'.
       bind_cl (clone rt accuExpr) (\<lambda>accuExpr'. bind_cl (clone rt idx) (\<lambda>idx'.
         bind_cl (clone rt prevRes) (\<lambda>prevRes'.
           alloc (\<lambda>k. Reduce k rng' resultType start' accuExpr' idx' prevRes'))))))"
| "clone_impl rt (Combine c ranges candPredExpr idxs) =
     bind_cl (clone_rngs rt ranges) (\<lambda>ranges'. bind_cl (clone rt candPredExpr) (\<lambda>candPredExpr'.
       bind_cl (clone_list rt idxs) (\<lambda>idxs'.
         alloc (\<lambda>k. Combine (new_obj k) ranges' candPredExpr' idxs'))))"
| "clone_impl rt (ForwardingOp c wrapped) =
     bind_cl (clone rt wrapped) (\<lambda>wrapped'. alloc (\<lambda>k. ForwardingOp (new_obj k) wrapped'))"
| "clone_impl rt (ScaleFactorWithSystOp c wrapped systName variations) =
     bind_cl (clone rt wrapped) (\<lambda>wrapped'.
       alloc (\<lambda>k. ScaleFactorWithSystOp (new_obj k) wrapped' systName
                    (default_variations systName variations)))"
| "clone_impl rt (SystModifiedCollectionOp c wrapped systName variations) =
     bind_cl (clone rt wrapped) (\<lambda>wrapped'.
       alloc (\<lambda>k. SystModifiedCollectionOp (new_obj k) wrapped' systName variations))"
| "clone_list rt [] = ret []"
| "clone_list rt (t # ts) =
     bind_cl (clone rt t) (\<lambda>t'. bind_cl (clone_list rt ts) (\<lambda>ts'. ret (t' # ts')))"
| "clone_rng rt (RangeProxy op base idxs) =
     bind_cl (clone rt op) (\<lambda>op'. bind_cl (clone rt idxs) (\<lambda>idxs'. ret (RangeProxy op' base idxs')))"
| "clone_rngs rt [] = ret []"
| "clone_rngs rt (r # rs) =
     bind_cl (clone_rng rt r) (\<lambda>r'. bind_cl (clone_rngs rt rs) (\<lambda>rs'. ret (r' # rs')))"

text \<open>\<^verbatim>\<open>a.clone()\<close>, with a new dictionary; \<open>nx\<close> is the identity of the first new object.\<close>

definition clone_top :: "(string \<Rightarrow> string) \<Rightarrow> nat \<Rightarrow> tupleop \<Rightarrow> pyerror + tupleop" where
  "clone_top rt nx t = (case clone rt t ([], nx) of Inl e \<Rightarrow> Inl e | Inr (cp, st) \<Rightarrow> Inr cp)"

text \<open>
  \<^verbatim>\<open>Reduce.fromRngFun(jets, 0., lambda prev, j : prev + j.pt)\<close>, the sum of the transverse
  momenta of the jets; the objects of one construction get the identities from \<open>k\<close> on.
\<close>

definition ex_reduce_from :: "nat \<Rightarrow> pyerror + tupleop" where
  "ex_reduce_from k = Reduce_fromRngFun no_proxy_deps hash0 (k + 1) (k + 2) (k + 5) (collection ''Jet'' 0)
     (Const (new_obj k) ''Double_t'' (PyFloat (Finite 0)), ''Double_t'')
     (\<lambda>prev idx. Inr (MathOp (new_obj (k + 4)) ''add''
        [prev, GetItem (new_obj (k + 3)) (rng_op (collection ''Jet'' 0)) ''Float_t'' idx] ''Double_t''))"

text \<open>No ROOT: \<^verbatim>\<open>guessReturnType(None)\<close>.\<close>

definition no_root :: "string \<Rightarrow> string" where
  "no_root nm = ''Float_t''"

section \<open>Rendering: properties\<close>

lemma str_nat_30: "str_nat 30 = ''30''"
  by (simp add: str_nat.simps [of 30] str_nat.simps [of 3] digit_def)

text \<open>
  C8. The greater-than comparison of the scalar column read \<^verbatim>\<open>pt\<close> with the constant
  \<^verbatim>\<open>30.0\<close>, whatever the type names and the objects, renders as \<^verbatim>\<open>( pt >  30.0 )\<close>, with two
  spaces after the operator.
\<close>

theorem C8_gt_pt_30:
  "get_cppStr (MathOp c ''gt'' [GetColumn c1 typeName ''pt'', Const c2 typeName (PyFloat (Finite 30))] outType)
     = Inr ''( pt >  30.0 )''"
  by (simp add: mathOpFuns_cppStr_def binary_def Const_get_cppStr_def str_float_def
      str_int_def str_nat_30)

text \<open>
  C9. The name of a placeholder whose index is still \<open>None\<close>, and so its rendering, is the
  RuntimeError \<^verbatim>\<open>Using LocalVariablePlaceholder before giving it an index\<close>; with the index
  \<open>i\<close> assigned, both are the text \<^verbatim>\<open>i\<close> followed by the decimal digits of \<open>i\<close>, and no error.
\<close>

theorem C9_placeholder_name:
  "name None = Inl (RuntimeError ''Using LocalVariablePlaceholder before giving it an index'')
   \<and> get_cppStr (LocalVariablePlaceholder c typeHint parent None)
       = Inl (RuntimeError ''Using LocalVariablePlaceholder before giving it an index'')
   \<and> name (Some i) = Inr (''i'' @ str_int i)
   \<and> get_cppStr (LocalVariablePlaceholder c typeHint parent (Some i)) = Inr (''i'' @ str_int i)"
  by (simp add: name_def)

section \<open>Systematic variations: properties\<close>

lemma get_args_set_args: "get_args t = Inr as \<Longrightarrow> get_args (set_args bs t) = Inr bs"
  by (cases t) auto

lemma name_not_Nominal: "name i \<noteq> Inr ''Nominal''"
  by (cases i) (auto simp: name_def)

lemma get_name_set_name: "get_name t = Inr ''Nominal'' \<Longrightarrow> get_name (set_name v t) = Inr v"
  by (cases t) (auto simp: name_not_Nominal)

lemma get_value_set_value: "get_value t = Inr w \<Longrightarrow> get_value (set_value v t) = Inr v"
  by (cases t) auto

lemma quoted_inj: "quoted a = quoted b \<Longrightarrow> a = b"
  by (simp add: quoted_def)

lemma ScaleFactorWithSystOp_frame:
  assumes "ScaleFactorWithSystOp_changeVariation c wrapped s vs v = Inr w'"
  shows "(\<not> holds_nominal (ScaleFactorWithSystOp c wrapped s vs) \<longrightarrow> w' = ScaleFactorWithSystOp c wrapped s vs)
       \<and> (w' \<noteq> ScaleFactorWithSystOp c wrapped s vs \<longrightarrow> \<not> holds_nominal w')"
  using assms
  by (auto simp: ScaleFactorWithSystOp_changeVariation_def Let_def get_args_set_args get_name_set_name
      split: if_splits sum.splits)

lemma SystModifiedCollectionOp_frame:
  assumes "SystModifiedCollectionOp_changeVariation c wrapped s vs v = Inr w'"
  shows "(\<not> holds_nominal (SystModifiedCollectionOp c wrapped s vs) \<longrightarrow> w' = SystModifiedCollectionOp c wrapped s vs)
       \<and> (w' \<noteq> SystModifiedCollectionOp c wrapped s vs \<longrightarrow> \<not> holds_nominal w')"
  using assms
  by (auto simp: SystModifiedCollectionOp_changeVariation_def Let_def get_args_set_args get_value_set_value
      dest: quoted_inj split: if_splits sum.splits list.splits)

lemma changeVariation_frame:
  assumes "changeVariation w v = Inr w'"
  shows "(\<not> holds_nominal w \<longrightarrow> w' = w) \<and> (w' \<noteq> w \<longrightarrow> \<not> holds_nominal w')"
  using assms by (cases w) (simp_all add: ScaleFactorWithSystOp_frame SystModifiedCollectionOp_frame)

text \<open>
  C10. A call of \<^verbatim>\<open>changeVariation\<close> that returns, on either wrapper, leaves the wrapper and the
  wrapped node exactly as they were unless the selector operand held the nominal value
  (\<^verbatim>\<open>Nominal\<close>, respectively \<^verbatim>\<open>"nominal"\<close>); and once a call has rewritten the selector, it no
  longer holds the nominal value, so that every later call that returns, with whatever name,
  changes nothing.
\<close>

theorem C10_changeVariation_only_from_nominal:
  assumes "changeVariation w v = Inr w'"
  shows "(\<not> holds_nominal w \<longrightarrow> w' = w)
       \<and> (w' \<noteq> w \<longrightarrow> holds_nominal w \<and> \<not> holds_nominal w'
            \<and> (\<forall>v2 w''. changeVariation w' v2 = Inr w'' \<longrightarrow> w'' = w'))"
  using changeVariation_frame [OF assms] changeVariation_frame [of w'] by blast

lemma ex_sf_up: "changeVariation (ex_sf ''Nominal'') ''xup'' = Inr (ex_sf ''Up'')"
  by code_simp

lemma ex_sf_down: "changeVariation (ex_sf ''Up'') ''xdown'' = Inr (ex_sf ''Up'')"
  by code_simp

theorem C10_witness:
  "changeVariation (ex_sf ''Nominal'') ''xup'' = Inr (ex_sf ''Up'')
   \<and> holds_nominal (ex_sf ''Nominal'') \<and> \<not> holds_nominal (ex_sf ''Up'')
   \<and> changeVariation (ex_sf ''Up'') ''xdown'' = Inr (ex_sf ''Up'')"
proof -
  have ne: "ex_sf ''Up'' \<noteq> ex_sf ''Nominal''"
    by (simp add: ex_sf_def ex_lookup_def)
  from C10_changeVariation_only_from_nominal [OF ex_sf_up] ne
  have "holds_nominal (ex_sf ''Nominal'') \<and> \<not> holds_nominal (ex_sf ''Up'')"
    by blast
  with ex_sf_up ex_sf_down show ?thesis by blast
qed

lemma frozen_not_index: "frozen_error \<noteq> RuntimeError ''Using LocalVariablePlaceholder before giving it an index''"
  by (simp add: frozen_error_def)

lemma name_not_frozen: "name i \<noteq> Inl frozen_error"
  by (cases i) (simp_all add: name_def frozen_error_def)

lemma get_name_not_frozen: "get_name t \<noteq> Inl frozen_error"
  by (cases t) (simp_all add: name_not_frozen, simp_all add: frozen_error_def)

lemma get_value_not_frozen: "get_value t \<noteq> Inl frozen_error"
  by (cases t) (simp_all add: frozen_error_def)

lemma get_args_not_frozen: "get_args t \<noteq> Inl frozen_error"
  by (cases t) (simp_all add: frozen_error_def)

lemma changeVariation_frozen:
  "is_variation_wrapper w \<Longrightarrow> is_frozen w \<Longrightarrow> changeVariation w v = Inl frozen_error"
  by (cases w) (simp_all add: is_frozen_def ScaleFactorWithSystOp_changeVariation_def
      SystModifiedCollectionOp_changeVariation_def)

lemma changeVariation_unfrozen:
  "is_variation_wrapper w \<Longrightarrow> \<not> is_frozen w \<Longrightarrow> changeVariation w v \<noteq> Inl frozen_error"
  by (cases w) (auto simp: is_frozen_def ScaleFactorWithSystOp_changeVariation_def
      SystModifiedCollectionOp_changeVariation_def Let_def frozen_error_def
      get_name_not_frozen [unfolded frozen_error_def] get_value_not_frozen [unfolded frozen_error_def]
      get_args_not_frozen [unfolded frozen_error_def]
      split: sum.splits list.splits)

lemma changeVariation_succeeds:
  "is_variation_wrapper w \<Longrightarrow> \<not> is_frozen w \<Longrightarrow> v \<in> set (variations_of w) \<Longrightarrow> has_selector w
     \<Longrightarrow> \<not> isl (changeVariation w v)"
  by (cases w) (auto simp: is_frozen_def ScaleFactorWithSystOp_changeVariation_def
      SystModifiedCollectionOp_changeVariation_def Let_def split: sum.splits list.splits)

lemma observe_repr_frozen:
  "is_variation_wrapper w \<Longrightarrow> \<not> isl (py_repr w) \<Longrightarrow> is_frozen (observe_repr w)"
  by (cases w) (auto simp: is_frozen_def cache_bool_def store_repr_def cached_repr_def
      split: option.splits sum.splits)

lemma set_cache_wrapper: "is_variation_wrapper w \<Longrightarrow> is_variation_wrapper (set_cache d w)"
  by (cases w) simp_all

lemma observe_repr_wrapper: "is_variation_wrapper w \<Longrightarrow> is_variation_wrapper (observe_repr w)"
  by (cases w) simp_all

lemma get_cache_set_cache: "get_cache t = Some c \<Longrightarrow> get_cache (set_cache d t) = Some d"
  by (cases t) simp_all

lemma observe_hash_frozen:
  "is_variation_wrapper w \<Longrightarrow> \<not> isl (py_repr w) \<Longrightarrow> is_frozen (observe_hash H w)"
  by (cases w) (auto simp: observe_hash_def is_frozen_def cache_bool_def
      split: option.splits sum.splits)

lemma observe_hash_wrapper: "is_variation_wrapper w \<Longrightarrow> is_variation_wrapper (observe_hash H w)"
  by (cases w) (auto simp: observe_hash_def split: option.splits sum.splits)

text \<open>
  C2, as the code has it. The guard of \<^verbatim>\<open>changeVariation\<close> reads the cache of the wrapper
  itself. For both wrappers: when the wrapper's own cache holds a hash or a repr, every call
  raises the RuntimeError \<^verbatim>\<open>Cannot change variation of an expression that is already frozen\<close>,
  and that is the state after \<^verbatim>\<open>repr(wrapper)\<close> or \<^verbatim>\<open>hash(wrapper)\<close> has returned; while the
  wrapper's own cache is empty, no call raises that error, and a call with a declared variation
  name on a wrapper whose wrapped node has a selector operand returns.
\<close>

theorem C2_frozen_is_the_wrappers_own_cache:
  assumes "is_variation_wrapper w"
  shows "(is_frozen w \<longrightarrow> changeVariation w v = Inl frozen_error)
       \<and> (\<not> isl (py_repr w) \<longrightarrow> changeVariation (observe_repr w) v = Inl frozen_error
                                 \<and> changeVariation (observe_hash H w) v = Inl frozen_error)
       \<and> (\<not> is_frozen w \<longrightarrow> changeVariation w v \<noteq> Inl frozen_error)
       \<and> (\<not> is_frozen w \<and> v \<in> set (variations_of w) \<and> has_selector w \<longrightarrow> \<not> isl (changeVariation w v))"
proof (intro conjI impI)
  assume "is_frozen w"
  with assms show "changeVariation w v = Inl frozen_error"
    by (rule changeVariation_frozen)
next
  assume r: "\<not> isl (py_repr w)"
  show "changeVariation (observe_repr w) v = Inl frozen_error"
    by (rule changeVariation_frozen [OF observe_repr_wrapper [OF assms] observe_repr_frozen [OF assms r]])
  show "changeVariation (observe_hash H w) v = Inl frozen_error"
    by (rule changeVariation_frozen [OF observe_hash_wrapper [OF assms] observe_hash_frozen [OF assms r]])
next
  assume "\<not> is_frozen w"
  with assms show "changeVariation w v \<noteq> Inl frozen_error"
    by (rule changeVariation_unfrozen)
next
  assume "\<not> is_frozen w \<and> v \<in> set (variations_of w) \<and> has_selector w"
  with assms show "\<not> isl (changeVariation w v)"
    by (simp add: changeVariation_succeeds)
qed

theorem C2_witness:
  "is_variation_wrapper (ex_sf ''Nominal'') \<and> \<not> is_frozen (ex_sf ''Nominal'')
   \<and> changeVariation (ex_sf ''Nominal'') ''xup'' = Inr (ex_sf ''Up'')
   \<and> changeVariation (observe_hash hash0 (ex_sf ''Nominal'')) ''xup'' = Inl frozen_error"
proof -
  have w: "is_variation_wrapper (ex_sf ''Nominal'')"
    by (simp add: ex_sf_def)
  have r: "\<not> isl (py_repr (ex_sf ''Nominal''))"
    by code_simp
  have f: "\<not> is_frozen (ex_sf ''Nominal'')"
    by code_simp
  from C2_frozen_is_the_wrappers_own_cache [OF w, of "''xup''" hash0] r
  have "changeVariation (observe_hash hash0 (ex_sf ''Nominal'')) ''xup'' = Inl frozen_error"
    by blast
  with w f ex_sf_up show ?thesis by blast
qed

text \<open>
  C2, as stated, fails, in three ways.
  \<^item> After the hash of the wrapped lookup \<^verbatim>\<open>sf.get(Nominal)\<close> has been observed, so that the
    node the wrapper points at is frozen, \<^verbatim>\<open>changeVariation\<close> on the wrapper does not raise:
    it returns, having rewritten the selector of the frozen node.
  \<^item> After the rendered form \<^verbatim>\<open>get_cppStr\<close> of the wrapper itself has been observed (it is
    \<^verbatim>\<open>sf.get(Nominal)\<close>), the wrapper is not frozen, and \<^verbatim>\<open>changeVariation\<close> returns: of the
    two texts of a node only the repr is cached.
  \<^item> Before any observation, \<^verbatim>\<open>changeVariation\<close> with the declared name \<^verbatim>\<open>xup\<close> on a wrapper
    around a constant does not succeed: the constant has no \<^verbatim>\<open>args\<close>, which is an
    AttributeError.
\<close>

theorem C2_counterexample:
  "is_frozen (observe_hash hash0 (ex_lookup ''Nominal''))
   \<and> \<not> isl (changeVariation
        (ScaleFactorWithSystOp (new_obj 3) (observe_hash hash0 (ex_lookup ''Nominal'')) ''x''
           [''xup'', ''xdown'']) ''xup'')
   \<and> changeVariation
        (ScaleFactorWithSystOp (new_obj 3) (observe_hash hash0 (ex_lookup ''Nominal'')) ''x''
           [''xup'', ''xdown'']) ''xup'' \<noteq> Inl frozen_error
   \<and> get_cppStr (ex_sf ''Nominal'') = Inr ''sf.get(Nominal)''
   \<and> \<not> is_frozen (observe_cppStr (ex_sf ''Nominal''))
   \<and> changeVariation (observe_cppStr (ex_sf ''Nominal'')) ''xup'' = Inr (ex_sf ''Up'')
   \<and> is_variation_wrapper ex_sf_const \<and> \<not> is_frozen ex_sf_const
   \<and> ''xup'' \<in> set (variations_of ex_sf_const)
   \<and> changeVariation ex_sf_const ''xup'' = Inl AttributeError"
proof -
  have a1: "is_frozen (observe_hash hash0 (ex_lookup ''Nominal''))"
    by code_simp
  have a2: "\<not> isl (changeVariation
        (ScaleFactorWithSystOp (new_obj 3) (observe_hash hash0 (ex_lookup ''Nominal'')) ''x''
           [''xup'', ''xdown'']) ''xup'')"
    by code_simp
  from a2 have a3: "changeVariation
        (ScaleFactorWithSystOp (new_obj 3) (observe_hash hash0 (ex_lookup ''Nominal'')) ''x''
           [''xup'', ''xdown'']) ''xup'' \<noteq> Inl frozen_error"
    by (metis sum.disc(1))
  have b1: "get_cppStr (ex_sf ''Nominal'') = Inr ''sf.get(Nominal)''"
    by code_simp
  have b2: "\<not> is_frozen (observe_cppStr (ex_sf ''Nominal''))"
    by code_simp
  have b3: "changeVariation (observe_cppStr (ex_sf ''Nominal'')) ''xup'' = Inr (ex_sf ''Up'')"
    unfolding observe_cppStr_def by (rule ex_sf_up)
  have c1: "is_variation_wrapper ex_sf_const"
    by (simp add: ex_sf_const_def)
  have c2: "\<not> is_frozen ex_sf_const"
    by code_simp
  have c3: "''xup'' \<in> set (variations_of ex_sf_const)"
    by (simp add: ex_sf_const_def)
  have c4: "changeVariation ex_sf_const ''xup'' = Inl AttributeError"
    by code_simp
  show ?thesis
    by (intro conjI) (rule a1 a2 a3 b1 b2 b3 c1 c2 c3 c4)+
qed

section \<open>Dependencies and higher-order operations: properties\<close>

text \<open>
  C7 does not hold of the code. For the combination of the jets with themselves, \<^verbatim>\<open>deps()\<close>
  with its default arguments selects the two range arguments and the candidate predicate, and
  yields \<open>None\<close> for each of the three (the bare \<^verbatim>\<open>yield\<close> of \<^verbatim>\<open>Combine.deps\<close>); the candidate
  predicate node itself is not among what is yielded.
\<close>

theorem C7_combine_deps_yields_None:
  "(case ex_combine of Inl e \<Rightarrow> False
    | Inr r \<Rightarrow> (case deps select_all r of Inl e \<Rightarrow> False
        | Inr ds \<Rightarrow> take 3 ds = [PyNone, PyNone, PyNone]
            \<and> (case body_of r of None \<Rightarrow> False | Some b \<Rightarrow> Op b \<notin> set ds)))"
  by code_simp

text \<open>
  The sibling \<^verbatim>\<open>Select.deps\<close> yields the selected arguments themselves: the node of the range
  and the predicate.
\<close>

lemma Select_deps_yields_nodes:
  "deps select_all (Select (new_obj 30) (collection ''Jet'' 0) (true_pred 20)
       (new_placeholder 29 SizeType (Some 0)))
   = Inr [Op (rng_op (collection ''Jet'' 0)),
          Op (GetColumn (new_obj 0) ''UInt_t'' ''nJet''),
          Op (true_pred 20)]"
  by code_simp

text \<open>
  C3 does not hold of the code. In the map over the jets of a selection of the muons whose
  predicate reads the jet only, the placeholder of the nested selection gets the index 0, and
  the scan of the body for the map's placeholder does not meet it (\<^verbatim>\<open>Select.deps\<close> yields from
  the range and the predicate, never \<^verbatim>\<open>self._i\<close>): the map's placeholder gets the index 0 too,
  not \<open>1\<close>, and both render as \<^verbatim>\<open>i0\<close>.
\<close>

theorem C3_nested_placeholders_share_index:
  "(case ex_map of Inl e \<Rightarrow> False
    | Inr m \<Rightarrow> map index_of (placeholders_of m) = [Some 0]
        \<and> map get_cppStr (placeholders_of m) = [Inr ''i0'']
        \<and> (case body_of m of None \<Rightarrow> False
            | Some b \<Rightarrow> class_name b = ''Select''
                \<and> map index_of (placeholders_of b) = [Some 0]
                \<and> map get_cppStr (placeholders_of b) = [Inr ''i0'']
                \<and> map_option get_cppStr (body_of b) = Some (Inr ''( Jet_pt[i0] >  30.0 )'')))"
  by code_simp

lemma upt2: "[0..<2] = [0, Suc 0]"
  by (simp add: numeral_2_eq_2)

lemma set_indices_2: "set_indices nid m 0 2 t = set_index (Suc nid) (m + 2) (set_index nid (m + 1) t)"
  by (simp add: numeral_2_eq_2 add.commute)

lemma set_parents_2: "set_parents nid 0 2 t = set_parent (Suc nid) (set_parent nid t t) (set_parent nid t t)"
  by (simp add: numeral_2_eq_2)

lemma combine2_unfold:
  "Combine_fromRngFun pd H nid 2 [ra, rb] candPredFun sameIdxPred =
     (case candPredFun [new_placeholder nid SizeType (Some (- 1)), new_placeholder (Suc nid) SizeType (Some (- 2))] of
        Inl e \<Rightarrow> Inl e
      | Inr cand \<Rightarrow>
         (let i0 = new_placeholder nid SizeType (Some (- 1));
              i1 = new_placeholder (Suc nid) SizeType (Some (- 2));
              candPredExpr = (if rng_base ra = rng_base rb
                 then op_AND (nid + 4) [op_AND (nid + 3) [sameIdxPred (nid + 2) i0 i1], cand]
                 else cand)
          in case maxLVIdx pd H candPredExpr of Inl e \<Rightarrow> Inl e
             | Inr m \<Rightarrow> Inr (set_parents nid 0 2 (set_indices nid m 0 2
                  (Combine (new_obj (nid + (if rng_base ra = rng_base rb then 5 else 4))) [ra, rb] candPredExpr [i0, i1])))))"
  by (simp add: Combine_fromRngFun_def Let_def same_base_pairs_def upt2 enumerate_eq_zip
      eval_nat_numeral split: sum.splits)

lemma set_index_Combine:
  "set_index k n (Combine c rs b ps) =
     Combine c (map (upd_rng k (\<lambda>p. p) (\<lambda>i. Some n)) rs) (set_index k n b) (map (set_index k n) ps)"
  by (simp add: set_index_def)

lemma set_parent_Combine:
  "set_parent k r (Combine c rs b ps) =
     Combine c (map (upd_rng k (\<lambda>p. Some r) (\<lambda>i. i)) rs) (set_parent k r b) (map (set_parent k r) ps)"
  by (simp add: set_parent_def)

lemma late2_and:
  "late2 nid m p0 p1 (op_AND k xs) = MathOp (new_obj k) ''and'' (map (late2 nid m p0 p1) xs) ''Bool_t''"
  by (simp add: late2_def set_index_def set_parent_def op_AND_def)

lemma late2_lt:
  "late2 nid m p0 p1 (op_lt k a b) =
     MathOp (new_obj k) ''lt'' [late2 nid m p0 p1 a, late2 nid m p0 p1 b] ''Bool_t''"
  by (simp add: late2_def set_index_def set_parent_def op_lt_def)

lemma late2_index0:
  "index_of (late2 nid m p0 p1 (new_placeholder nid th i)) = Some (m + 1)"
  by (simp add: late2_def set_index_def set_parent_def new_placeholder_def new_obj_def)

lemma late2_index1:
  "index_of (late2 nid m p0 p1 (new_placeholder (Suc nid) th i)) = Some (m + 2)"
  by (simp add: late2_def set_index_def set_parent_def new_placeholder_def new_obj_def)

lemma get_cppStr_index:
  "index_of t = Some n \<Longrightarrow> get_cppStr t = Inr (''i'' @ str_int n)"
  by (cases t) (simp_all add: name_def)

lemma combine2_result:
  assumes "Combine_fromRngFun pd H nid 2 [ra, rb] candPredFun op_lt = Inr res"
  shows "\<exists>cand m p0 p1.
      candPredFun [new_placeholder nid SizeType (Some (- 1)), new_placeholder (Suc nid) SizeType (Some (- 2))] = Inr cand
    \<and> placeholders_of res = map (late2 nid m p0 p1)
         [new_placeholder nid SizeType (Some (- 1)), new_placeholder (Suc nid) SizeType (Some (- 2))]
    \<and> body_of res = Some (late2 nid m p0 p1
         (if rng_base ra = rng_base rb
          then op_AND (nid + 4) [op_AND (nid + 3)
                 [op_lt (nid + 2) (new_placeholder nid SizeType (Some (- 1)))
                    (new_placeholder (Suc nid) SizeType (Some (- 2)))], cand]
          else cand))"
proof -
  let ?i0 = "new_placeholder nid SizeType (Some (- 1))"
  let ?i1 = "new_placeholder (Suc nid) SizeType (Some (- 2))"
  from assms obtain cand where c: "candPredFun [?i0, ?i1] = Inr cand"
    by (auto simp: combine2_unfold split: sum.splits)
  let ?e = "if rng_base ra = rng_base rb
            then op_AND (nid + 4) [op_AND (nid + 3) [op_lt (nid + 2) ?i0 ?i1], cand] else cand"
  let ?c = "new_obj (nid + (if rng_base ra = rng_base rb then 5 else 4))"
  from assms c obtain m where
    r: "res = set_parents nid 0 2 (set_indices nid m 0 2 (Combine ?c [ra, rb] ?e [?i0, ?i1]))"
    by (auto simp: combine2_unfold Let_def split: sum.splits)
  let ?X = "set_indices nid m 0 2 (Combine ?c [ra, rb] ?e [?i0, ?i1])"
  have "placeholders_of res = map (late2 nid m ?X (set_parent nid ?X ?X)) [?i0, ?i1]
      \<and> body_of res = Some (late2 nid m ?X (set_parent nid ?X ?X) ?e)"
    unfolding r set_parents_2 set_indices_2 late2_def
    by (simp add: set_index_Combine set_parent_Combine)
  with c show ?thesis by blast
qed

lemma render_ordered:
  assumes "get_cppStr i0 = Inr a" "get_cppStr i1 = Inr b" "get_cppStr user = Inr s"
  shows "get_cppStr (MathOp c ''and'' [MathOp c' ''and'' [MathOp c'' ''lt'' [i0, i1] t] t', user] t'')
       = Inr (''( ( ( '' @ a @ '' <  '' @ b @ '' ) ) && '' @ s @ '' )'')"
  using assms by (simp add: mathOpFuns_cppStr_def wrap_join_def binary_def)

lemma combine_single_range:
  "Combine_fromRngFun pd H nid 2 [ra] candPredFun sameIdxPred
     = Combine_fromRngFun pd H nid 2 [ra, ra] candPredFun sameIdxPred"
  by (simp add: Combine_fromRngFun_def numeral_2_eq_2)

text \<open>
  The case of two ranges, with the default \<^verbatim>\<open>sameIdxPred\<close>: the two placeholders get
  consecutive indices \<open>m + 1\<close> and \<open>m + 2\<close>. When the two ranges have the same underlying
  collection the candidate predicate is the conjunction of the distinctness predicate, \<open>lt\<close> on
  the first and the second placeholder, with the user's predicate, and it renders as
  \<^verbatim>\<open>( ( ( i<m+1> <  i<m+2> ) ) && <user> )\<close>; when the collections differ the candidate
  predicate is the user's predicate alone. A single range stands for the same range twice.
\<close>

lemma combine_two_ranges_ordering:
  assumes "Combine_fromRngFun pd H nid 2 [ra, rb] candPredFun op_lt = Inr res"
  shows "\<exists>cand m p0 p1 i0 i1 user.
       candPredFun [new_placeholder nid SizeType (Some (- 1)), new_placeholder (Suc nid) SizeType (Some (- 2))]
         = Inr cand
     \<and> user = late2 nid m p0 p1 cand
     \<and> placeholders_of res = [i0, i1] \<and> index_of i0 = Some (m + 1) \<and> index_of i1 = Some (m + 2)
     \<and> (rng_base ra = rng_base rb \<longrightarrow>
          body_of res = Some (MathOp (new_obj (nid + 4)) ''and''
             [MathOp (new_obj (nid + 3)) ''and'' [MathOp (new_obj (nid + 2)) ''lt'' [i0, i1] ''Bool_t''] ''Bool_t'',
              user] ''Bool_t'')
          \<and> (\<forall>s. get_cppStr user = Inr s \<longrightarrow>
                map_option get_cppStr (body_of res)
                  = Some (Inr (''( ( ( i'' @ str_int (m + 1) @ '' <  i'' @ str_int (m + 2) @ '' ) ) && '' @ s @ '' )''))))
     \<and> (rng_base ra \<noteq> rng_base rb \<longrightarrow> body_of res = Some user)
     \<and> Combine_fromRngFun pd H nid 2 [ra] candPredFun op_lt
         = Combine_fromRngFun pd H nid 2 [ra, ra] candPredFun op_lt"
proof -
  let ?i0 = "new_placeholder nid SizeType (Some (- 1))"
  let ?i1 = "new_placeholder (Suc nid) SizeType (Some (- 2))"
  from combine2_result [OF assms] obtain cand m p0 p1 where
    c: "candPredFun [?i0, ?i1] = Inr cand" and
    p: "placeholders_of res = map (late2 nid m p0 p1) [?i0, ?i1]" and
    b: "body_of res = Some (late2 nid m p0 p1
         (if rng_base ra = rng_base rb
          then op_AND (nid + 4) [op_AND (nid + 3) [op_lt (nid + 2) ?i0 ?i1], cand]
          else cand))"
    by blast
  let ?L = "late2 nid m p0 p1"
  have x0: "index_of (?L ?i0) = Some (m + 1)" by (rule late2_index0)
  have x1: "index_of (?L ?i1) = Some (m + 2)" by (rule late2_index1)
  have s: "rng_base ra = rng_base rb \<Longrightarrow>
     body_of res = Some (MathOp (new_obj (nid + 4)) ''and''
             [MathOp (new_obj (nid + 3)) ''and'' [MathOp (new_obj (nid + 2)) ''lt'' [?L ?i0, ?L ?i1] ''Bool_t''] ''Bool_t'',
              ?L cand] ''Bool_t'')"
    using b by (simp add: late2_and late2_lt)
  have r: "rng_base ra = rng_base rb \<Longrightarrow> get_cppStr (?L cand) = Inr s \<Longrightarrow>
     map_option get_cppStr (body_of res)
       = Some (Inr (''( ( ( i'' @ str_int (m + 1) @ '' <  i'' @ str_int (m + 2) @ '' ) ) && '' @ s @ '' )''))" for s
    using render_ordered [OF get_cppStr_index [OF x0] get_cppStr_index [OF x1]] s by simp
  have d: "rng_base ra \<noteq> rng_base rb \<Longrightarrow> body_of res = Some (?L cand)"
    using b by simp
  from p have p': "placeholders_of res = [?L ?i0, ?L ?i1]" by simp
  show ?thesis
    using c p' x0 x1 s r d combine_single_range [of pd H nid ra candPredFun op_lt] by blast
qed

lemma ex_combine_ok: "\<not> isl ex_combine"
  by code_simp

lemma ex_combine_eval:
  "(case ex_combine of Inl e \<Rightarrow> False
    | Inr r \<Rightarrow> map index_of (placeholders_of r) = [Some 0, Some 1]
         \<and> map_option get_cppStr (body_of r) = Some (Inr ''( ( ( i0 <  i1 ) ) && true )''))"
  by code_simp

lemma ex_combine_jm_eval:
  "(case ex_combine_jm of Inl e \<Rightarrow> False
    | Inr r \<Rightarrow> map index_of (placeholders_of r) = [Some 0, Some 1]
         \<and> map_option get_cppStr (body_of r) = Some (Inr ''( Jet_pt[i0] >  Muon_pt[i1] )''))"
  by code_simp


section \<open>Capture lists: properties\<close>

lemma step_triple:
  "convert_step dc ld acc = Inr acc' \<Longrightarrow>
     \<exists>t. triple_of dc ld = Inr t \<and> (acc' = acc @ [t] \<or> (acc' = acc \<and> capture t \<in> capture ` set acc))"
  by (cases ld) (auto simp: triple_of_def Let_def list_ex_iff split: sum.splits if_splits)




lemma triples_Cons:
  "triples dc (ld # lds) = Inr ts \<Longrightarrow>
     \<exists>t ts'. triple_of dc ld = Inr t \<and> triples dc lds = Inr ts' \<and> ts = t # ts'"
  by (auto simp: triples_def split: sum.splits)






lemma convertFunArgs_sorted: "convertFunArgs dc lds = Inr r \<Longrightarrow> sorted (paramDecl r)"
  by (auto simp: convertFunArgs_def paramDecl_def split: sum.splits)





lemma convert_loop_triples:
  "convert_loop dc lds acc = Inr r \<Longrightarrow> \<exists>ts. triples dc lds = Inr ts"
proof (induction lds arbitrary: acc)
  case Nil
  then show ?case by (simp add: triples_def)
next
  case (Cons ld lds)
  from Cons.prems obtain acc' where s: "convert_step dc ld acc = Inr acc'"
    and l: "convert_loop dc lds acc' = Inr r"
    by (auto split: sum.splits)
  from step_triple [OF s] obtain t where "triple_of dc ld = Inr t" by blast
  moreover from Cons.IH [OF l] obtain ts where "triples dc lds = Inr ts" by blast
  ultimately show ?case by (simp add: triples_def)
qed

text \<open>Whenever \<^verbatim>\<open>_convertFunArgs\<close> returns, every dependency has its triple.\<close>

lemma convertFunArgs_returns:
  "convertFunArgs dc lds = Inr r \<Longrightarrow> \<exists>ts. triples dc lds = Inr ts"
  by (auto simp: convertFunArgs_def split: sum.splits dest: convert_loop_triples)

lemma step_total:
  "triple_of dc ld = Inr t \<Longrightarrow> \<not> isl (convert_step dc ld acc)"
  by (cases ld) (auto simp: triple_of_def Let_def split: sum.splits if_splits)

lemma convert_loop_total:
  "triples dc lds = Inr ts \<Longrightarrow> \<not> isl (convert_loop dc lds acc)"
proof (induction lds arbitrary: acc ts)
  case Nil
  then show ?case by simp
next
  case (Cons ld lds)
  from triples_Cons [OF Cons.prems] obtain t ts' where
    t: "triple_of dc ld = Inr t" and ts': "triples dc lds = Inr ts'"
    by blast
  from step_total [OF t, of acc] obtain acc' where "convert_step dc ld acc = Inr acc'"
    by (metis sum.collapse(2))
  with Cons.IH [OF ts', of acc'] show ?case by simp
qed

text \<open>\<^verbatim>\<open>_convertFunArgs\<close> returns exactly when every dependency has its triple.\<close>

lemma convertFunArgs_returns_iff:
  "\<not> isl (convertFunArgs dc lds) \<longleftrightarrow> (\<exists>ts. triples dc lds = Inr ts)"
proof
  assume "\<not> isl (convertFunArgs dc lds)"
  then obtain r where "convertFunArgs dc lds = Inr r"
    by (metis sum.collapse(2))
  then show "\<exists>ts. triples dc lds = Inr ts"
    by (rule convertFunArgs_returns)
next
  assume "\<exists>ts. triples dc lds = Inr ts"
  then obtain ts where "triples dc lds = Inr ts" by blast
  from convert_loop_total [OF this, of "[]"] show "\<not> isl (convertFunArgs dc lds)"
    by (auto simp: convertFunArgs_def split: sum.splits)
qed


section \<open>Combinations: properties\<close>

lemma lvp_id_upd [simp]: "lvp_id (upd_lvp k fp fi t) = lvp_id t"
  by (cases t) simp_all

lemma index_of_upd:
  "index_of (upd_lvp k fp fi t) = (if lvp_id t = Some k then fi (index_of t) else index_of t)"
  by (cases t) simp_all

lemma upd_MathOp: "upd_lvp k fp fi (MathOp c op args ot) = MathOp c op (map (upd_lvp k fp fi) args) ot"
  by simp

lemma set_indices_0_fun: "set_indices nid m j 0 = (\<lambda>t. t)"
  by (rule ext) simp

lemma set_indices_Suc_fun:
  "set_indices nid m j (Suc n) = (\<lambda>t. set_indices nid m (Suc j) n (set_index (nid + j) (m + 1 + int j) t))"
  by (rule ext) simp

lemma set_parents_in_0_fun: "set_parents_in nid j 0 w = (\<lambda>t. t)"
  by (rule ext) simp

lemma set_parents_in_Suc_fun:
  "set_parents_in nid j (Suc n) w
     = (\<lambda>t. set_parents_in nid (Suc j) n (set_parent (nid + j) w w) (set_parent (nid + j) w t))"
  by (rule ext) simp

lemma set_indices_MathOp:
  "set_indices nid m j n (MathOp c op args ot) = MathOp c op (map (set_indices nid m j n) args) ot"
  by (induction n arbitrary: j args)
    (simp_all add: set_index_def set_indices_0_fun set_indices_Suc_fun o_def)

lemma set_parents_in_MathOp:
  "set_parents_in nid j n w (MathOp c op args ot) = MathOp c op (map (set_parents_in nid j n w) args) ot"
  by (induction n arbitrary: j w args)
    (simp_all add: set_parent_def set_parents_in_0_fun set_parents_in_Suc_fun o_def)

lemma late_all_MathOp:
  "late_all nid num m w (MathOp c op args ot) = MathOp c op (map (late_all nid num m w) args) ot"
  by (simp add: late_all_def set_indices_MathOp set_parents_in_MathOp)

lemma lvp_id_set_indices [simp]: "lvp_id (set_indices nid m j n t) = lvp_id t"
  by (induction n arbitrary: j t) (simp_all add: set_index_def)

lemma lvp_id_set_parents_in [simp]: "lvp_id (set_parents_in nid j n w t) = lvp_id t"
  by (induction n arbitrary: j w t) (simp_all add: set_parent_def)

lemma lvp_id_late_all [simp]: "lvp_id (late_all nid num m w t) = lvp_id t"
  by (simp add: late_all_def)

lemma index_of_set_parents_in [simp]: "index_of (set_parents_in nid j n w t) = index_of t"
  by (induction n arbitrary: j w t) (simp_all add: set_parent_def index_of_upd)

lemma index_of_set_indices:
  "lvp_id t = Some (nid + k) \<Longrightarrow>
     index_of (set_indices nid m j n t) = (if j \<le> k \<and> k < j + n then Some (m + 1 + int k) else index_of t)"
proof (induction n arbitrary: j t)
  case 0
  then show ?case by auto
next
  case (Suc n)
  have l: "lvp_id (set_index (nid + j) (m + 1 + int j) t) = Some (nid + k)"
    using Suc.prems by (simp add: set_index_def)
  show ?case
    using Suc.IH [OF l, of "Suc j"] Suc.prems
    by (auto simp: set_index_def index_of_upd)
qed

lemma index_of_late_all:
  "lvp_id t = Some (nid + k) \<Longrightarrow> k < num \<Longrightarrow> index_of (late_all nid num m w t) = Some (m + 1 + int k)"
  by (simp add: late_all_def index_of_set_indices)

lemma set_indices_Combine:
  "\<exists>rs'. set_indices nid m j n (Combine c rs b ps)
     = Combine c rs' (set_indices nid m j n b) (map (set_indices nid m j n) ps)"
proof (induction n arbitrary: j rs b ps)
  case 0
  then show ?case by (simp add: set_indices_0_fun)
next
  case (Suc n)
  show ?case
    using Suc.IH [of "Suc j" "map (upd_rng (nid + j) (\<lambda>p. p) (\<lambda>i. Some (m + 1 + int j))) rs"
      "set_index (nid + j) (m + 1 + int j) b" "map (set_index (nid + j) (m + 1 + int j)) ps"]
    by (simp add: set_index_Combine o_def)
qed

lemma set_parents_Combine:
  "\<exists>rs'. set_parents nid j n (Combine c rs b ps)
     = Combine c rs' (set_parents_in nid j n (Combine c rs b ps) b)
         (map (set_parents_in nid j n (Combine c rs b ps)) ps)"
proof (induction n arbitrary: j rs b ps)
  case 0
  then show ?case by (simp add: set_parents_in_0_fun)
next
  case (Suc n)
  let ?t = "Combine c rs b ps"
  have e: "set_parent (nid + j) ?t ?t
     = Combine c (map (upd_rng (nid + j) (\<lambda>p. Some ?t) (\<lambda>i. i)) rs) (set_parent (nid + j) ?t b)
         (map (set_parent (nid + j) ?t) ps)"
    by (simp add: set_parent_def)
  show ?case
    using Suc.IH [of "Suc j" "map (upd_rng (nid + j) (\<lambda>p. Some ?t) (\<lambda>i. i)) rs"
      "set_parent (nid + j) ?t b" "map (set_parent (nid + j) ?t) ps"]
    unfolding set_parents.simps set_parents_in_Suc_fun e by (simp add: o_def)
qed

lemma combine_result_shape:
  "\<exists>whole. body_of (set_parents nid 0 num (set_indices nid m 0 num (Combine c rs b ps)))
              = Some (late_all nid num m whole b)
     \<and> placeholders_of (set_parents nid 0 num (set_indices nid m 0 num (Combine c rs b ps)))
              = map (late_all nid num m whole) ps"
proof -
  from set_indices_Combine [of nid m 0 num c rs b ps] obtain rs' where
    a: "set_indices nid m 0 num (Combine c rs b ps)
          = Combine c rs' (set_indices nid m 0 num b) (map (set_indices nid m 0 num) ps)"
    by blast
  let ?X = "Combine c rs' (set_indices nid m 0 num b) (map (set_indices nid m 0 num) ps)"
  from set_parents_Combine [of nid 0 num c rs' "set_indices nid m 0 num b" "map (set_indices nid m 0 num) ps"]
  obtain rs'' where
    b: "set_parents nid 0 num ?X
          = Combine c rs'' (set_parents_in nid 0 num ?X (set_indices nid m 0 num b))
              (map (set_parents_in nid 0 num ?X) (map (set_indices nid m 0 num) ps))"
    by blast
  show ?thesis
    unfolding a b by (rule exI [of _ ?X]) (simp add: late_all_def)
qed

lemma Combine_fromRngFun_alt:
  "Combine_fromRngFun pd H nid num ranges f g =
     (if ranges = [] then Inl IndexError
      else case f (take (length (used_ranges num ranges)) (provisional nid num)) of
        Inl e \<Rightarrow> Inl e
      | Inr cand \<Rightarrow>
          (case maxLVIdx pd H (combine_body nid num ranges g cand) of
             Inl e \<Rightarrow> Inl e
           | Inr m \<Rightarrow> Inr (set_parents nid 0 num (set_indices nid m 0 num
               (Combine (new_obj (nid + num + length (combine_diffs nid num ranges g) + 2))
                  (used_ranges num ranges) (combine_body nid num ranges g cand)
                  (provisional nid num))))))"
  by (simp add: Combine_fromRngFun_def Let_def used_ranges_def provisional_def combine_body_def
      combine_diffs_def cong: sum.case_cong if_cong)

lemma combine_unfold:
  assumes "Combine_fromRngFun pd H nid num ranges f g = Inr res"
  shows "\<exists>cand m c. f (take (length (used_ranges num ranges)) (provisional nid num)) = Inr cand
     \<and> res = set_parents nid 0 num (set_indices nid m 0 num
         (Combine c (used_ranges num ranges) (combine_body nid num ranges g cand) (provisional nid num)))"
proof -
  from assms obtain cand where c: "f (take (length (used_ranges num ranges)) (provisional nid num)) = Inr cand"
    unfolding Combine_fromRngFun_alt by (auto split: if_splits sum.splits)
  from assms c obtain m where "res = set_parents nid 0 num (set_indices nid m 0 num
               (Combine (new_obj (nid + num + length (combine_diffs nid num ranges g) + 2))
                  (used_ranges num ranges) (combine_body nid num ranges g cand)
                  (provisional nid num)))"
    unfolding Combine_fromRngFun_alt by (auto split: if_splits sum.splits)
  with c show ?thesis by blast
qed

lemma combinations2_set:
  "(a, b) \<in> set (combinations2 xs) \<longleftrightarrow> (\<exists>i j. i < j \<and> j < length xs \<and> a = xs ! i \<and> b = xs ! j)"
proof (induction xs)
  case Nil
  then show ?case by simp
next
  case (Cons x xs)
  show ?case
  proof
    assume "(a, b) \<in> set (combinations2 (x # xs))"
    then consider "a = x" "b \<in> set xs" | "(a, b) \<in> set (combinations2 xs)"
      by auto
    then show "\<exists>i j. i < j \<and> j < length (x # xs) \<and> a = (x # xs) ! i \<and> b = (x # xs) ! j"
    proof cases
      case 1
      then obtain j where "j < length xs" "b = xs ! j"
        by (auto simp: in_set_conv_nth)
      with 1 have "0 < Suc j \<and> Suc j < length (x # xs) \<and> a = (x # xs) ! 0 \<and> b = (x # xs) ! Suc j"
        by simp
      then show ?thesis by blast
    next
      case 2
      with Cons.IH obtain i j where "i < j" "j < length xs" "a = xs ! i" "b = xs ! j"
        by blast
      then have "Suc i < Suc j \<and> Suc j < length (x # xs) \<and> a = (x # xs) ! Suc i \<and> b = (x # xs) ! Suc j"
        by simp
      then show ?thesis by blast
    qed
  next
    assume "\<exists>i j. i < j \<and> j < length (x # xs) \<and> a = (x # xs) ! i \<and> b = (x # xs) ! j"
    then obtain i j where ij: "i < j" "j < length (x # xs)" "a = (x # xs) ! i" "b = (x # xs) ! j"
      by blast
    from ij(1) obtain j' where j': "j = Suc j'"
      by (cases j) auto
    show "(a, b) \<in> set (combinations2 (x # xs))"
    proof (cases i)
      case 0
      with ij j' have "a = x" "b \<in> set xs" by auto
      then show ?thesis by simp
    next
      case (Suc i')
      with ij j' have "i' < j'" "j' < length xs" "a = xs ! i'" "b = xs ! j'" by auto
      with Cons.IH have "(a, b) \<in> set (combinations2 xs)" by blast
      then show ?thesis by simp
    qed
  qed
qed

lemma same_base_pairs_set:
  "(ia, ib) \<in> set (same_base_pairs (zip idx rs)) \<longleftrightarrow>
     (\<exists>i j. i < j \<and> j < length idx \<and> j < length rs \<and> ia = idx ! i \<and> ib = idx ! j
            \<and> rng_base (rs ! i) = rng_base (rs ! j))"
proof
  assume "(ia, ib) \<in> set (same_base_pairs (zip idx rs))"
  then obtain ra rb where m: "((ia, ra), (ib, rb)) \<in> set (combinations2 (zip idx rs))"
    and b: "rng_base ra = rng_base rb"
    by (auto simp: same_base_pairs_def)
  from m obtain i j where ij: "i < j" "j < length (zip idx rs)"
    "(ia, ra) = zip idx rs ! i" "(ib, rb) = zip idx rs ! j"
    unfolding combinations2_set by blast
  then have "ia = idx ! i" "ra = rs ! i" "ib = idx ! j" "rb = rs ! j" "j < length idx" "j < length rs"
    by auto
  with ij(1) b show "\<exists>i j. i < j \<and> j < length idx \<and> j < length rs \<and> ia = idx ! i \<and> ib = idx ! j
            \<and> rng_base (rs ! i) = rng_base (rs ! j)"
    by blast
next
  assume "\<exists>i j. i < j \<and> j < length idx \<and> j < length rs \<and> ia = idx ! i \<and> ib = idx ! j
            \<and> rng_base (rs ! i) = rng_base (rs ! j)"
  then obtain i j where ij: "i < j" "j < length idx" "j < length rs" "ia = idx ! i" "ib = idx ! j"
    "rng_base (rs ! i) = rng_base (rs ! j)"
    by blast
  then have "(ia, rs ! i) = zip idx rs ! i" "(ib, rs ! j) = zip idx rs ! j" "j < length (zip idx rs)"
    by auto
  with ij(1) have "((ia, rs ! i), (ib, rs ! j)) \<in> set (combinations2 (zip idx rs))"
    unfolding combinations2_set by blast
  with ij(6) show "(ia, ib) \<in> set (same_base_pairs (zip idx rs))"
    by (force simp: same_base_pairs_def)
qed

lemma combine_diffs_length:
  "length (combine_diffs nid num ranges g)
     = length (same_base_pairs (zip (provisional nid num) (used_ranges num ranges)))"
  by (simp add: combine_diffs_def)

lemma combine_diffs_only:
  assumes "d \<in> set (combine_diffs nid num ranges g)"
  shows "\<exists>k ia ib. d = g (nid + num + k) ia ib
     \<and> (ia, ib) \<in> set (same_base_pairs (zip (provisional nid num) (used_ranges num ranges)))"
proof -
  let ?ps = "same_base_pairs (zip (provisional nid num) (used_ranges num ranges))"
  from assms obtain k p where "(k, p) \<in> set (enumerate 0 ?ps)" "d = (case p of (ia, ib) \<Rightarrow> g (nid + num + k) ia ib)"
    by (auto simp: combine_diffs_def)
  then have "k < length ?ps" "p = ?ps ! k" "d = g (nid + num + k) (fst p) (snd p)"
    by (auto simp: in_set_enumerate_eq split: prod.splits)
  then have "p \<in> set ?ps" "d = g (nid + num + k) (fst p) (snd p)"
    by simp_all
  then show ?thesis by (metis prod.collapse)
qed

lemma combine_diffs_every:
  assumes "(ia, ib) \<in> set (same_base_pairs (zip (provisional nid num) (used_ranges num ranges)))"
  shows "\<exists>k. g (nid + num + k) ia ib \<in> set (combine_diffs nid num ranges g)"
proof -
  let ?ps = "same_base_pairs (zip (provisional nid num) (used_ranges num ranges))"
  from assms obtain k where k: "k < length ?ps" "?ps ! k = (ia, ib)"
    by (auto simp: in_set_conv_nth)
  then have "(k, (ia, ib)) \<in> set (enumerate 0 ?ps)"
    by (simp add: in_set_enumerate_eq)
  then have "(case (k, (ia, ib)) of (j, (x, y)) \<Rightarrow> g (nid + num + j) x y) \<in> set (combine_diffs nid num ranges g)"
    unfolding combine_diffs_def set_map by (rule imageI)
  then show ?thesis by auto
qed

lemma render_lt:
  "get_cppStr a = Inr x \<Longrightarrow> get_cppStr b = Inr y \<Longrightarrow>
     get_cppStr (MathOp c ''lt'' [a, b] t) = Inr (''( '' @ x @ '' <  '' @ y @ '' )'')"
  by (simp add: mathOpFuns_cppStr_def binary_def)

text \<open>
  C5. \<^verbatim>\<open>Combine.fromRngFun\<close> over any number of ranges, with the default \<^verbatim>\<open>sameIdxPred\<close>.
  The placeholders get the consecutive indices \<open>m + 1, m + 2, ...\<close>, in the order of the ranges.
  For every pair of placeholders, of the \<open>i\<close>-th and the \<open>j\<close>-th range with \<open>i < j\<close>, the list
  of distinctness predicates has the predicate \<open>lt\<close> on the \<open>i\<close>-th and the \<open>j\<close>-th placeholder
  exactly when the two ranges have the same underlying collection; the list has nothing else,
  and each of its predicates renders as \<^verbatim>\<open>( i<a> <  i<b> )\<close> with the smaller placeholder index
  first. The candidate predicate is the conjunction of the conjunction of that list with the
  user's predicate when the list is not empty, and the user's predicate alone when it is empty.
\<close>

theorem C5_combine_pairs_of_same_collection:
  assumes "Combine_fromRngFun pd H nid num ranges candPredFun op_lt = Inr res"
  shows "\<exists>cand m whole diffs.
      candPredFun (take (length (used_ranges num ranges)) (provisional nid num)) = Inr cand
    \<and> placeholders_of res = map (late_all nid num m whole) (provisional nid num)
    \<and> length (placeholders_of res) = num
    \<and> (\<forall>k<num. index_of (placeholders_of res ! k) = Some (m + 1 + int k))
    \<and> body_of res = Some (if diffs = [] then late_all nid num m whole cand
                          else MathOp (new_obj (nid + num + length diffs + 1)) ''and''
                                 [MathOp (new_obj (nid + num + length diffs)) ''and'' diffs ''Bool_t'',
                                  late_all nid num m whole cand] ''Bool_t'')
    \<and> (\<forall>i j. i < j \<and> j < num \<and> j < length (used_ranges num ranges) \<longrightarrow>
         ((\<exists>c. MathOp c ''lt'' [placeholders_of res ! i, placeholders_of res ! j] ''Bool_t'' \<in> set diffs)
          \<longleftrightarrow> rng_base (used_ranges num ranges ! i) = rng_base (used_ranges num ranges ! j)))
    \<and> (\<forall>d \<in> set diffs. \<exists>c i j. i < j \<and> j < num \<and> j < length (used_ranges num ranges)
          \<and> rng_base (used_ranges num ranges ! i) = rng_base (used_ranges num ranges ! j)
          \<and> d = MathOp c ''lt'' [placeholders_of res ! i, placeholders_of res ! j] ''Bool_t''
          \<and> get_cppStr d = Inr (''( i'' @ str_int (m + 1 + int i) @ '' <  i'' @ str_int (m + 1 + int j) @ '' )''))"
proof -
  let ?rs = "used_ranges num ranges"
  let ?idx = "provisional nid num"
  from combine_unfold [OF assms] obtain cand m c where
    cand: "candPredFun (take (length ?rs) ?idx) = Inr cand" and
    res: "res = set_parents nid 0 num (set_indices nid m 0 num
            (Combine c ?rs (combine_body nid num ranges op_lt cand) ?idx))"
    by blast
  from combine_result_shape [of nid num m c ?rs "combine_body nid num ranges op_lt cand" ?idx]
  obtain whole where
    body: "body_of res = Some (late_all nid num m whole (combine_body nid num ranges op_lt cand))" and
    ph: "placeholders_of res = map (late_all nid num m whole) ?idx"
    unfolding res by blast
  let ?L = "late_all nid num m whole"
  let ?d0 = "combine_diffs nid num ranges op_lt"
  let ?diffs = "map ?L ?d0"
  let ?P = "placeholders_of res"
  have lidx: "length ?idx = num"
    by (simp add: provisional_def)
  have len: "length ?P = num"
    by (simp add: ph lidx)
  have P: "?P ! k = ?L (?idx ! k)" if "k < num" for k
    using that by (simp add: ph lidx)
  have idk: "lvp_id (?idx ! k) = Some (nid + k)" if "k < num" for k
    using that by (simp add: provisional_def new_placeholder_def new_obj_def)
  have ix: "index_of (?P ! k) = Some (m + 1 + int k)" if "k < num" for k
    using index_of_late_all [OF idk [OF that] that] P [OF that] by simp
  have b: "body_of res = Some (if ?diffs = [] then ?L cand
                          else MathOp (new_obj (nid + num + length ?diffs + 1)) ''and''
                                 [MathOp (new_obj (nid + num + length ?diffs)) ''and'' ?diffs ''Bool_t'',
                                  ?L cand] ''Bool_t'')"
    using body by (simp add: combine_body_def Let_def op_AND_def late_all_MathOp)
  have Llt: "?L (op_lt k a b) = MathOp (new_obj k) ''lt'' [?L a, ?L b] ''Bool_t''" for k a b
    by (simp add: op_lt_def late_all_MathOp)
  have pairs: "(ia, ib) \<in> set (same_base_pairs (zip ?idx ?rs)) \<longleftrightarrow>
     (\<exists>i j. i < j \<and> j < num \<and> j < length ?rs \<and> ia = ?idx ! i \<and> ib = ?idx ! j
            \<and> rng_base (?rs ! i) = rng_base (?rs ! j))" for ia ib
    using same_base_pairs_set [of ia ib ?idx ?rs] by (simp add: lidx)
  have only: "\<exists>k i j. i < j \<and> j < num \<and> j < length ?rs \<and> rng_base (?rs ! i) = rng_base (?rs ! j)
       \<and> d = MathOp (new_obj k) ''lt'' [?P ! i, ?P ! j] ''Bool_t''" if "d \<in> set ?diffs" for d
  proof -
    from that obtain d0 where d0: "d0 \<in> set ?d0" "d = ?L d0" by auto
    from combine_diffs_only [OF d0(1)] obtain k ia ib where
      k: "d0 = op_lt (nid + num + k) ia ib" "(ia, ib) \<in> set (same_base_pairs (zip ?idx ?rs))"
      by blast
    from k(2) pairs obtain i j where ij: "i < j" "j < num" "j < length ?rs" "ia = ?idx ! i" "ib = ?idx ! j"
      "rng_base (?rs ! i) = rng_base (?rs ! j)"
      by blast
    from ij(1,2) have "i < num" by simp
    with d0(2) k(1) ij P [of i] P [of j]
    have "d = MathOp (new_obj (nid + num + k)) ''lt'' [?P ! i, ?P ! j] ''Bool_t''"
      by (simp add: Llt)
    with ij show ?thesis by blast
  qed
  have every: "\<exists>c. MathOp c ''lt'' [?P ! i, ?P ! j] ''Bool_t'' \<in> set ?diffs"
    if "i < j" "j < num" "j < length ?rs" "rng_base (?rs ! i) = rng_base (?rs ! j)" for i j
  proof -
    from that have "(?idx ! i, ?idx ! j) \<in> set (same_base_pairs (zip ?idx ?rs))"
      unfolding pairs by blast
    from combine_diffs_every [OF this, of op_lt] obtain k where
      "op_lt (nid + num + k) (?idx ! i) (?idx ! j) \<in> set ?d0"
      by blast
    then have "?L (op_lt (nid + num + k) (?idx ! i) (?idx ! j)) \<in> set ?diffs"
      by simp
    moreover from that have "i < num" by simp
    ultimately have "MathOp (new_obj (nid + num + k)) ''lt'' [?P ! i, ?P ! j] ''Bool_t'' \<in> set ?diffs"
      using P [of i] P [of j] that(2) by (simp add: Llt)
    then show ?thesis by blast
  qed
  have inj: "i = i'" if "?P ! i = ?P ! i'" "i < num" "i' < num" for i i'
  proof -
    from that have "lvp_id (?L (?idx ! i)) = lvp_id (?L (?idx ! i'))"
      by (simp add: P)
    with that idk [of i] idk [of i'] show ?thesis by simp
  qed
  have same: "rng_base (?rs ! i) = rng_base (?rs ! j)"
    if "i < j" "j < num" "MathOp c ''lt'' [?P ! i, ?P ! j] ''Bool_t'' \<in> set ?diffs" for i j c
  proof -
    from only [OF that(3)] obtain k i' j' where
      k: "i' < j'" "j' < num" "rng_base (?rs ! i') = rng_base (?rs ! j')"
      "MathOp c ''lt'' [?P ! i, ?P ! j] ''Bool_t'' = MathOp (new_obj k) ''lt'' [?P ! i', ?P ! j'] ''Bool_t''"
      by blast
    from k(4) have e: "?P ! i = ?P ! i'" "?P ! j = ?P ! j'" by simp_all
    from that k have "i < num" "i' < num" by simp_all
    with e that(2) k(2) have "i = i'" "j = j'" by (auto dest: inj)
    with k(3) show ?thesis by simp
  qed
  have render: "get_cppStr (MathOp c ''lt'' [?P ! i, ?P ! j] ''Bool_t'')
      = Inr (''( i'' @ str_int (m + 1 + int i) @ '' <  i'' @ str_int (m + 1 + int j) @ '' )'')"
    if "i < num" "j < num" for i j c
    using render_lt [OF get_cppStr_index [OF ix [OF that(1)]] get_cppStr_index [OF ix [OF that(2)]]]
    by simp
  have iff: "\<forall>i j. i < j \<and> j < num \<and> j < length ?rs \<longrightarrow>
         ((\<exists>c. MathOp c ''lt'' [?P ! i, ?P ! j] ''Bool_t'' \<in> set ?diffs)
          \<longleftrightarrow> rng_base (?rs ! i) = rng_base (?rs ! j))"
    using every same by blast
  have all: "\<forall>d \<in> set ?diffs. \<exists>c i j. i < j \<and> j < num \<and> j < length ?rs
          \<and> rng_base (?rs ! i) = rng_base (?rs ! j)
          \<and> d = MathOp c ''lt'' [?P ! i, ?P ! j] ''Bool_t''
          \<and> get_cppStr d = Inr (''( i'' @ str_int (m + 1 + int i) @ '' <  i'' @ str_int (m + 1 + int j) @ '' )'')"
  proof
    fix d assume "d \<in> set ?diffs"
    from only [OF this] obtain k i j where
      k: "i < j" "j < num" "j < length ?rs" "rng_base (?rs ! i) = rng_base (?rs ! j)"
      "d = MathOp (new_obj k) ''lt'' [?P ! i, ?P ! j] ''Bool_t''"
      by blast
    from k(1,2) have "i < num" by simp
    from render [OF this k(2), of "new_obj k"] k
    show "\<exists>c i j. i < j \<and> j < num \<and> j < length ?rs
          \<and> rng_base (?rs ! i) = rng_base (?rs ! j)
          \<and> d = MathOp c ''lt'' [?P ! i, ?P ! j] ''Bool_t''
          \<and> get_cppStr d = Inr (''( i'' @ str_int (m + 1 + int i) @ '' <  i'' @ str_int (m + 1 + int j) @ '' )'')"
      by blast
  qed
  have ixs: "\<forall>k<num. index_of (?P ! k) = Some (m + 1 + int k)"
    using ix by blast
  show ?thesis
    apply (rule exI [of _ cand], rule exI [of _ m], rule exI [of _ whole], rule exI [of _ ?diffs])
    apply (intro conjI)
          apply (rule cand)
         apply (rule ph)
        apply (rule len)
       apply (rule ixs)
      apply (rule b)
     apply (rule iff)
    apply (rule all)
    done
qed

lemma ex_combine3_ok: "\<not> isl ex_combine3"
  by code_simp

lemma ex_combine3_eval:
  "(case ex_combine3 of Inl e \<Rightarrow> False
    | Inr r \<Rightarrow> map index_of (placeholders_of r) = [Some 0, Some 1, Some 2]
         \<and> map_option get_cppStr (body_of r) = Some (Inr ''( ( ( i0 <  i2 ) ) && true )''))"
  by code_simp

theorem C5_witness:
  "\<exists>res. ex_combine3 = Inr res
     \<and> (\<exists>diffs.
           (\<exists>c. MathOp c ''lt'' [placeholders_of res ! 0, placeholders_of res ! 2] ''Bool_t'' \<in> set diffs)
         \<and> \<not> (\<exists>c. MathOp c ''lt'' [placeholders_of res ! 0, placeholders_of res ! 1] ''Bool_t'' \<in> set diffs)
         \<and> \<not> (\<exists>c. MathOp c ''lt'' [placeholders_of res ! 1, placeholders_of res ! 2] ''Bool_t'' \<in> set diffs))
     \<and> map index_of (placeholders_of res) = [Some 0, Some 1, Some 2]
     \<and> map_option get_cppStr (body_of res) = Some (Inr ''( ( ( i0 <  i2 ) ) && true )'')"
proof -
  let ?rs = "[collection ''Jet'' 0, collection ''Muon'' 3, collection ''Jet'' 0]"
  from ex_combine3_ok obtain res where r: "ex_combine3 = Inr res"
    by (metis sum.collapse(2))
  have u: "used_ranges 3 ?rs = ?rs"
    by (simp add: used_ranges_def)
  from C5_combine_pairs_of_same_collection [OF r [unfolded ex_combine3_def]]
  obtain diffs where
    d: "\<forall>i j. i < j \<and> j < 3 \<and> j < length (used_ranges 3 ?rs) \<longrightarrow>
         ((\<exists>c. MathOp c ''lt'' [placeholders_of res ! i, placeholders_of res ! j] ''Bool_t'' \<in> set diffs)
          \<longleftrightarrow> rng_base (used_ranges 3 ?rs ! i) = rng_base (used_ranges 3 ?rs ! j))"
    by blast
  from d [unfolded u, rule_format, of 0 2]
  have a: "\<exists>c. MathOp c ''lt'' [placeholders_of res ! 0, placeholders_of res ! 2] ''Bool_t'' \<in> set diffs"
    by (simp add: collection_def)
  from d [unfolded u, rule_format, of 0 1]
  have b: "\<not> (\<exists>c. MathOp c ''lt'' [placeholders_of res ! 0, placeholders_of res ! 1] ''Bool_t'' \<in> set diffs)"
    by (simp add: collection_def)
  from d [unfolded u, rule_format, of 1 2]
  have c: "\<not> (\<exists>c. MathOp c ''lt'' [placeholders_of res ! 1, placeholders_of res ! 2] ''Bool_t'' \<in> set diffs)"
    by (simp add: collection_def)
  from a b c have abc: "\<exists>diffs.
           (\<exists>c. MathOp c ''lt'' [placeholders_of res ! 0, placeholders_of res ! 2] ''Bool_t'' \<in> set diffs)
         \<and> \<not> (\<exists>c. MathOp c ''lt'' [placeholders_of res ! 0, placeholders_of res ! 1] ''Bool_t'' \<in> set diffs)
         \<and> \<not> (\<exists>c. MathOp c ''lt'' [placeholders_of res ! 1, placeholders_of res ! 2] ''Bool_t'' \<in> set diffs)"
    by blast
  from ex_combine3_eval [unfolded r]
  have e1: "map index_of (placeholders_of res) = [Some 0, Some 1, Some 2]"
    and e2: "map_option get_cppStr (body_of res) = Some (Inr ''( ( ( i0 <  i2 ) ) && true )'')"
    by simp_all
  show ?thesis
    by (rule exI [of _ res], intro conjI) (rule r abc e1 e2)+
qed

section \<open>Equality and cloning: properties\<close>

text \<open>
  C1 does not hold of the code. \<^verbatim>\<open>Reduce.__init__\<close> does not call \<^verbatim>\<open>TupleOp.__init__\<close>, so a
  \<open>Reduce\<close> node has no \<^verbatim>\<open>_cache\<close>: its repr and its hash raise AttributeError, and so does the
  comparison of two \<open>Reduce\<close> objects with the same operands, whatever the operands are; so
  does the comparison of the results of two independent calls of
  \<^verbatim>\<open>Reduce.fromRngFun(jets, 0., lambda prev, j : prev + j.pt)\<close>.
\<close>

theorem C1_reduce_equality_raises:
  "py_repr (Reduce n rng resultType start accuExpr idx prevRes) = Inl AttributeError
   \<and> py_hash H (Reduce n rng resultType start accuExpr idx prevRes) = Inl AttributeError
   \<and> py_eq H (Reduce n rng resultType start accuExpr idx prevRes)
        (Reduce (Suc n) rng resultType start accuExpr idx prevRes) = Inl AttributeError
   \<and> (case ex_reduce_from 60 of Inl e \<Rightarrow> False
       | Inr a \<Rightarrow> (case ex_reduce_from 160 of Inl e \<Rightarrow> False
           | Inr b \<Rightarrow> class_name a = ''Reduce'' \<and> class_name b = ''Reduce''
               \<and> py_eq hash0 a b = Inl AttributeError))"
proof -
  have g: "py_repr (Reduce n rng resultType start accuExpr idx prevRes) = Inl AttributeError
   \<and> py_hash H (Reduce n rng resultType start accuExpr idx prevRes) = Inl AttributeError
   \<and> py_eq H (Reduce n rng resultType start accuExpr idx prevRes)
        (Reduce (Suc n) rng resultType start accuExpr idx prevRes) = Inl AttributeError"
    by (simp add: py_hash_def py_id_def)
  have e: "(case ex_reduce_from 60 of Inl e \<Rightarrow> False
       | Inr a \<Rightarrow> (case ex_reduce_from 160 of Inl e \<Rightarrow> False
           | Inr b \<Rightarrow> class_name a = ''Reduce'' \<and> class_name b = ''Reduce''
               \<and> py_eq hash0 a b = Inl AttributeError))"
    by code_simp
  from g e show ?thesis by blast
qed

text \<open>
  Whatever the hash of strings is, two distinct objects are equal only if they are of the same
  class and the structural comparison \<^verbatim>\<open>_eq\<close> of that class holds: a collision of hashes
  cannot make two nodes equal.
\<close>

lemma eq_rechecks_class_and_structure:
  "py_eq H a b = Inr True \<Longrightarrow> py_id a \<noteq> py_id b \<Longrightarrow>
     class_name a = class_name b \<and> impl_eq H a b = Inr True \<and> py_hash H a = py_hash H b"
  by (auto split: sum.splits if_splits)

text \<open>Two distinct constants, two distinct columns: equal exactly when their fields are.\<close>

lemma Const_eq:
  "py_eq H (Const (new_obj k) typeName v) (Const (new_obj k') typeName' v')
     = Inr (k = k' \<or> (H (''Const('' @ repr_str typeName @ '', '' @ repr_value v @ '')'')
                        = H (''Const('' @ repr_str typeName' @ '', '' @ repr_value v' @ '')'')
                      \<and> typeName = typeName' \<and> v = v'))"
  by (simp add: py_id_def new_obj_def py_hash_def cached_repr_def fmt_call_def)

text \<open>
  For the nodes that have a cache the comparison works as C1 says; for instance the clone of
  the scale factor wrapper is equal to the original, is not frozen, and can change variation.
\<close>

lemma clone_wrapper_equal:
  "(case clone_top no_root 100 (ex_sf ''Nominal'') of Inl e \<Rightarrow> False
    | Inr cp \<Rightarrow> py_eq hash0 cp (ex_sf ''Nominal'') = Inr True \<and> \<not> is_frozen cp
        \<and> \<not> isl (changeVariation cp ''xup''))"
  by code_simp

text \<open>
  C6 does not hold of the code. The clone of the \<open>Reduce\<close> node that
  \<^verbatim>\<open>Reduce.fromRngFun(jets, 0., lambda prev, j : prev + j.pt)\<close> returns is a new \<open>Reduce\<close>
  object, which has no cache at all rather than an empty one, and comparing it with the
  original raises AttributeError instead of returning \<open>True\<close>.
\<close>

theorem C6_clone_of_reduce_not_equal:
  "(case ex_reduce_from 60 of Inl e \<Rightarrow> False
    | Inr a \<Rightarrow> (case clone_top no_root 100 a of Inl e \<Rightarrow> False
        | Inr cp \<Rightarrow> class_name cp = ''Reduce'' \<and> py_id cp \<noteq> py_id a \<and> get_cache cp = None
            \<and> py_eq hash0 cp a = Inl AttributeError))"
  by code_simp

end
